theory Spec2Isabelle
  imports Complex_Main "HOL-Library.Word"
begin

section \<open>Bitmaps (src/lib/scan-preprocessing.ts)\<close>

text \<open>
  A bitmap is the browser's \<open>ImageData\<close>: a \<open>Uint8ClampedArray\<close> of bytes in the order
  R, G, B, A, row by row, with its width and height. The platform only ever hands out
  objects with \<open>width > 0\<close>, \<open>height > 0\<close> and \<open>data.length = 4 * width * height\<close>
  (the constructor throws otherwise); \<open>wf_image\<close> is that invariant. Under it every
  index the filters read is inside the array; the filters below are models of the
  source on such bitmaps.
\<close>

type_synonym u8 = "8 word"

record ImageData =
  data :: "u8 list"
  width :: nat
  height :: nat

datatype error = InvalidStateError | IndexSizeError | CanvasContextNotAvailable

definition wf_image :: "ImageData \<Rightarrow> bool" where
  "wf_image img =
     (0 < width img \<and> 0 < height img \<and> length (data img) = width img * height img * 4)"

text \<open>\<open>new ImageData(data, sw, sh)\<close>: the constructor's checks, as the HTML standard lists them.\<close>

definition new_ImageData :: "u8 list \<Rightarrow> nat \<Rightarrow> nat \<Rightarrow> error + ImageData" where
  "new_ImageData d sw sh =
     (if length d = 0 \<or> length d mod 4 \<noteq> 0 then Inl InvalidStateError
      else if sw = 0 \<or> (length d div 4) mod sw \<noteq> 0 then Inl IndexSizeError
      else if sh \<noteq> (length d div 4) div sw then Inl IndexSizeError
      else Inr \<lparr>data = d, width = sw, height = sh\<rparr>)"

subsection \<open>JavaScript numbers\<close>

text \<open>
  The filters compute in IEEE 754 doubles. Every double that occurs in them is an integer
  multiple of \<open>2^-56\<close> below \<open>2^10\<close>, so a number is modelled by that integer (fixed point,
  unit \<open>2^-56\<close>), and the rounding of an exact result to the nearest double, ties to even,
  is the rounding of that integer to 53 significant bits.
\<close>

fun bit_length :: "nat \<Rightarrow> nat" where
  "bit_length n = (if n = 0 then 0 else Suc (bit_length (n div 2)))"

declare bit_length.simps [simp del]

definition rnd53 :: "nat \<Rightarrow> nat" where
  "rnd53 n =
     (if bit_length n \<le> 53 then n
      else let s = bit_length n - 53;
               q = n div 2 ^ s;
               r = n mod 2 ^ s;
               h = 2 ^ (s - 1)
           in (if h < r \<or> (r = h \<and> odd q) then q + 1 else q) * 2 ^ s)"

definition rnd53s :: "int \<Rightarrow> int" where
  "rnd53s x = sgn x * int (rnd53 (nat \<bar>x\<bar>))"

text \<open>The doubles written \<open>0.299\<close>, \<open>0.587\<close> and \<open>0.114\<close>, in units of \<open>2^-56\<close>.\<close>

definition c299 :: nat where "c299 = 21545220617340452"
definition c587 :: nat where "c587 = 42297807700263696"
definition c114 :: nat where "c114 = 8214565720323785"

text \<open>\<open>Math.round(x)\<close> is \<open>\<lfloor>x + 1/2\<rfloor>\<close>.\<close>

definition math_round :: "nat \<Rightarrow> nat" where
  "math_round x = (x + 2 ^ 55) div 2 ^ 56"

text \<open>\<open>Math.round(0.299 * r + 0.587 * g + 0.114 * b)\<close>, evaluated left to right.\<close>

definition gray :: "u8 \<Rightarrow> u8 \<Rightarrow> u8 \<Rightarrow> nat" where
  "gray r g b =
     math_round (rnd53 (rnd53 (rnd53 (c299 * unat r) + rnd53 (c587 * unat g))
                        + rnd53 (c114 * unat b)))"

text \<open>
  A store into a \<open>Uint8ClampedArray\<close> clamps to \<open>[0, 255]\<close> and rounds to the nearest
  integer, ties to even: \<open>u8c_int\<close> for a number that is an integer, \<open>u8c_fx\<close> for a
  fixed-point number.
\<close>

definition u8c_int :: "int \<Rightarrow> u8" where
  "u8c_int k = word_of_int (min 255 (max 0 k))"

definition u8c_fx :: "int \<Rightarrow> u8" where
  "u8c_fx x =
     (let y = min (255 * 2 ^ 56) (max 0 x);
          f = y div 2 ^ 56;
          d = y mod 2 ^ 56
      in word_of_int (if d < 2 ^ 55 then f else if 2 ^ 55 < d then f + 1
                      else if even f then f else f + 1))"

text \<open>The loop \<open>for (let i = 0; i < n; i += 4)\<close> visits these indices, in this order.\<close>

definition pixel_offsets :: "nat \<Rightarrow> nat list" where
  "pixel_offsets n = map (\<lambda>k. 4 * k) [0..<(n + 3) div 4]"

subsection \<open>The filters\<close>

text \<open>
  \<open>factor = (259 * (contrast + 255)) / (255 * (259 - contrast))\<close> with \<open>contrast = 1.5\<close>:
  numerator \<open>66433.5\<close> and denominator \<open>65662.5\<close> are exact, and \<open>factor\<close> is the double
  nearest to their quotient (lemma \<open>factor_nearest\<close>), in units of \<open>2^-56\<close>.
\<close>

definition factor :: int where "factor = 72903684348276192"

definition contrast_channel :: "u8 \<Rightarrow> u8" where
  "contrast_channel v =
     u8c_fx (min (255 * 2 ^ 56)
               (max 0 (rnd53s (rnd53s (factor * (uint v - 128)) + 128 * 2 ^ 56))))"

text \<open>
  Each filter copies \<open>imageData.data\<close> into \<open>data\<close>, runs its loop on the copy and
  wraps it in a new \<open>ImageData\<close>. A \<open>_step\<close> or \<open>_pixel\<close> function is the body of the
  loop: it maps the buffer before an iteration to the buffer after it.
\<close>

definition contrast_step :: "nat \<Rightarrow> u8 list \<Rightarrow> u8 list" where
  "contrast_step i d =
     (let d = d[i := contrast_channel (d ! i)];
          d = d[i + 1 := contrast_channel (d ! (i + 1))];
          d = d[i + 2 := contrast_channel (d ! (i + 2))]
      in d)"

definition enhancedContrast :: "ImageData \<Rightarrow> error + ImageData" where
  "enhancedContrast imageData =
     (let d = fold contrast_step (pixel_offsets (length (data imageData))) (data imageData)
      in new_ImageData d (width imageData) (height imageData))"

definition histogram_step :: "nat \<Rightarrow> u8 list \<Rightarrow> u8 list" where
  "histogram_step i d =
     (let g = u8c_int (int (gray (d ! i) (d ! (i + 1)) (d ! (i + 2))))
      in d[i := g, i + 1 := g, i + 2 := g])"

definition adaptiveHistogram :: "ImageData \<Rightarrow> error + ImageData" where
  "adaptiveHistogram imageData =
     (let d = fold histogram_step (pixel_offsets (length (data imageData))) (data imageData)
      in new_ImageData d (width imageData) (height imageData))"

text \<open>
  \<open>binaryThreshold\<close>: \<open>sum\<close> is a sum of integers, exact in doubles below \<open>2^53\<close>;
  \<open>pixels = data.length / 4\<close> is the number of pixels of a bitmap; \<open>threshold = sum /
  pixels\<close> is the double nearest to the quotient. \<open>fl_quot a b\<close> is that double for a
  quotient that is 0 or at least \<open>2^-46\<close>, which a quotient of a sum of lumas by fewer
  than \<open>2^46\<close> pixels is: the quotient in units of \<open>2^-100\<close> has more than 53 bits, and
  is rounded to 53, ties to even, where a remainder of the division (\<open>sticky\<close>) makes the
  quotient more than a tie.
\<close>

definition rnd53_sticky :: "nat \<Rightarrow> bool \<Rightarrow> nat" where
  "rnd53_sticky m sticky =
     (let s = bit_length m - 53;
          q = m div 2 ^ s;
          r = m mod 2 ^ s;
          h = 2 ^ (s - 1)
      in (if h < r \<or> (r = h \<and> (sticky \<or> odd q)) then q + 1 else q) * 2 ^ s)"

definition fl_quot :: "nat \<Rightarrow> nat \<Rightarrow> rat" where
  "fl_quot a b =
     (if bit_length (a * 2 ^ 100 div b) \<le> 53 then of_nat a / of_nat b
      else of_nat (rnd53_sticky (a * 2 ^ 100 div b) (0 < a * 2 ^ 100 mod b)) / 2 ^ 100)"

definition luma_sum :: "u8 list \<Rightarrow> nat" where
  "luma_sum d =
     fold (\<lambda>i s. s + gray (d ! i) (d ! (i + 1)) (d ! (i + 2))) (pixel_offsets (length d)) 0"

definition threshold_of :: "u8 list \<Rightarrow> rat" where
  "threshold_of d = fl_quot (luma_sum d) (length d div 4)"

definition threshold_step :: "rat \<Rightarrow> nat \<Rightarrow> u8 list \<Rightarrow> u8 list" where
  "threshold_step threshold i d =
     (let g = gray (d ! i) (d ! (i + 1)) (d ! (i + 2));
          binary = (if threshold < of_nat g then 255 else 0)
      in d[i := binary, i + 1 := binary, i + 2 := binary])"

definition binaryThreshold :: "ImageData \<Rightarrow> error + ImageData" where
  "binaryThreshold imageData =
     (let threshold = threshold_of (data imageData);
          d = fold (threshold_step threshold) (pixel_offsets (length (data imageData)))
                (data imageData)
      in new_ImageData d (width imageData) (height imageData))"

definition kernel :: "int list" where
  "kernel = [-1, -1, -1, -1, 9, -1, -1, -1, -1]"

text \<open>The two inner loops of \<open>sharpening\<close>: the sums \<open>r\<close>, \<open>g\<close>, \<open>b\<close> over the buffer \<open>d\<close>.\<close>

definition kernel_sums :: "u8 list \<Rightarrow> nat \<Rightarrow> nat \<Rightarrow> nat \<Rightarrow> int \<times> int \<times> int" where
  "kernel_sums d w y x =
     fold (\<lambda>ky. fold (\<lambda>kx (r, g, b).
             let idx = nat ((int y + ky) * int w + (int x + kx)) * 4;
                 weight = kernel ! nat ((ky + 1) * 3 + (kx + 1))
             in (r + uint (d ! idx) * weight,
                 g + uint (d ! (idx + 1)) * weight,
                 b + uint (d ! (idx + 2)) * weight)) [-1, 0, 1]) [-1, 0, 1] (0, 0, 0)"

text \<open>
  The body of the pixel loop of \<open>sharpening\<close>. The sums are read from the buffer \<open>d\<close>
  that the loop writes.
\<close>

definition sharpen_pixel :: "nat \<Rightarrow> nat \<Rightarrow> nat \<Rightarrow> u8 list \<Rightarrow> u8 list" where
  "sharpen_pixel w y x d =
     (case kernel_sums d w y x of (r, g, b) \<Rightarrow>
        let idx = (y * w + x) * 4
        in d[idx := u8c_int (min 255 (max 0 r)),
             idx + 1 := u8c_int (min 255 (max 0 g)),
             idx + 2 := u8c_int (min 255 (max 0 b))])"

definition sharpening :: "ImageData \<Rightarrow> error + ImageData" where
  "sharpening imageData =
     (let w = width imageData;
          h = height imageData;
          d = fold (\<lambda>y. fold (\<lambda>x. sharpen_pixel w y x) [1..<w - 1]) [1..<h - 1]
                (data imageData)
      in new_ImageData d (width imageData) (height imageData))"

definition inversion_step :: "nat \<Rightarrow> u8 list \<Rightarrow> u8 list" where
  "inversion_step i d =
     (let d = d[i := u8c_int (255 - uint (d ! i))];
          d = d[i + 1 := u8c_int (255 - uint (d ! (i + 1)))];
          d = d[i + 2 := u8c_int (255 - uint (d ! (i + 2)))]
      in d)"

definition colorInversion :: "ImageData \<Rightarrow> error + ImageData" where
  "colorInversion imageData =
     (let d = fold inversion_step (pixel_offsets (length (data imageData))) (data imageData)
      in new_ImageData d (width imageData) (height imageData))"

text \<open>The two inner loops of \<open>morphological\<close>: \<open>minVal\<close> over the snapshot \<open>temp\<close>.\<close>

definition min_luma :: "u8 list \<Rightarrow> nat \<Rightarrow> nat \<Rightarrow> nat \<Rightarrow> nat" where
  "min_luma temp w y x =
     fold (\<lambda>dy. fold (\<lambda>dx minVal.
             let idx = nat ((int y + dy) * int w + (int x + dx)) * 4;
                 g = gray (temp ! idx) (temp ! (idx + 1)) (temp ! (idx + 2))
             in min minVal g) [-1, 0, 1]) [-1, 0, 1] 255"

text \<open>
  The body of the pixel loop of \<open>morphological\<close>. The minimum is read from \<open>temp\<close>, the
  copy of the buffer taken before the loop; the loop writes \<open>d\<close>.
\<close>

definition erode_pixel :: "u8 list \<Rightarrow> nat \<Rightarrow> nat \<Rightarrow> nat \<Rightarrow> u8 list \<Rightarrow> u8 list" where
  "erode_pixel temp w y x d =
     (let minVal = u8c_int (int (min_luma temp w y x));
          idx = (y * w + x) * 4
      in d[idx := minVal, idx + 1 := minVal, idx + 2 := minVal])"

definition morphological :: "ImageData \<Rightarrow> error + ImageData" where
  "morphological imageData =
     (let w = width imageData;
          h = height imageData;
          temp = data imageData;
          d = fold (\<lambda>y. fold (\<lambda>x. erode_pixel temp w y x) [1..<w - 1]) [1..<h - 1]
                (data imageData)
      in new_ImageData d (width imageData) (height imageData))"



definition channel :: "ImageData \<Rightarrow> nat \<Rightarrow> nat \<Rightarrow> nat \<Rightarrow> u8" where
  "channel img x y c = data img ! (4 * (y * width img + x) + c)"

subsection \<open>The strategy pipeline\<close>

record ProcessingStrategy =
  name :: string
  progress :: nat
  fn :: "ImageData \<Rightarrow> error + ImageData"

definition processingStrategies :: "ProcessingStrategy list" where
  "processingStrategies =
     [\<lparr>name = ''Direct Detection'', progress = 65, fn = (\<lambda>data. Inr data)\<rparr>,
      \<lparr>name = ''Enhanced Contrast'', progress = 70, fn = enhancedContrast\<rparr>,
      \<lparr>name = ''Adaptive Histogram'', progress = 75, fn = adaptiveHistogram\<rparr>,
      \<lparr>name = ''Binary Threshold'', progress = 80, fn = binaryThreshold\<rparr>,
      \<lparr>name = ''Sharpening'', progress = 85, fn = sharpening\<rparr>,
      \<lparr>name = ''Color Inversion'', progress = 90, fn = colorInversion\<rparr>,
      \<lparr>name = ''Morphological'', progress = 95, fn = morphological\<rparr>]"

text \<open>
  The collaborators of \<open>processImage\<close> are parameters. A call of one of them either
  throws or returns: the decoder \<open>jsQR(data, width, height)\<close> returns a code or
  \<open>null\<close>, the callback \<open>onProgress(progress, name)\<close> returns nothing. Of the canvas
  only \<open>getContext('2d')\<close> is used, and only tested for \<open>null\<close>.
\<close>

datatype 'a attempt = Throws | Returns 'a

record Location =
  topLeftCorner :: "rat \<times> rat"
  topRightCorner :: "rat \<times> rat"
  bottomLeftCorner :: "rat \<times> rat"
  bottomRightCorner :: "rat \<times> rat"

text \<open>What \<open>jsQR\<close> returns: the payload and its corners, and fields the pipeline drops.\<close>

record QRCode =
  code_data :: string
  code_location :: Location
  code_version :: nat

record QRResult =
  qr_data :: string
  qr_location :: Location

record HTMLCanvasElement =
  has_context_2d :: bool

text \<open>
  What the collaborators observe, in order: a progress report, a decoder call with its
  three arguments, a \<open>console.warn\<close> for a caught fault, the pause between attempts.
\<close>

datatype event =
  Progress nat string
| Decode "u8 list" nat nat
| Warn string
| Pause nat

text \<open>
  One iteration of the loop of \<open>processImage\<close>: the events it causes, and the value the
  function returns from inside the loop, if it does.
\<close>

definition try_strategy ::
  "(nat \<Rightarrow> string \<Rightarrow> unit attempt) \<Rightarrow> (u8 list \<Rightarrow> nat \<Rightarrow> nat \<Rightarrow> QRCode option attempt) \<Rightarrow>
   ImageData \<Rightarrow> ProcessingStrategy \<Rightarrow> event list \<times> QRResult option" where
  "try_strategy onProgress jsQR imageData strategy =
     (let reported = [Progress (progress strategy) (name strategy)];
          caught = [Warn (name strategy)]
      in case onProgress (progress strategy) (name strategy) of
           Throws \<Rightarrow> (reported @ caught, None)
         | Returns _ \<Rightarrow>
             (case fn strategy imageData of
                Inl _ \<Rightarrow> (reported @ caught, None)
              | Inr processedData \<Rightarrow>
                  (let decoded = [Decode (data processedData) (width processedData)
                                    (height processedData)]
                   in case jsQR (data processedData) (width processedData)
                             (height processedData) of
                        Throws \<Rightarrow> (reported @ decoded @ caught, None)
                      | Returns (Some result) \<Rightarrow>
                          (reported @ decoded,
                           Some \<lparr>qr_data = code_data result,
                                 qr_location = code_location result\<rparr>)
                      | Returns None \<Rightarrow> (reported @ decoded @ [Pause 50], None))))"

fun try_strategies ::
  "(nat \<Rightarrow> string \<Rightarrow> unit attempt) \<Rightarrow> (u8 list \<Rightarrow> nat \<Rightarrow> nat \<Rightarrow> QRCode option attempt) \<Rightarrow>
   ImageData \<Rightarrow> ProcessingStrategy list \<Rightarrow> event list \<times> QRResult option" where
  "try_strategies onProgress jsQR imageData [] = ([], None)"
| "try_strategies onProgress jsQR imageData (strategy # rest) =
     (case try_strategy onProgress jsQR imageData strategy of
        (evs, Some result) \<Rightarrow> (evs, Some result)
      | (evs, None) \<Rightarrow>
          (case try_strategies onProgress jsQR imageData rest of
             (evs', r) \<Rightarrow> (evs @ evs', r)))"

text \<open>
  \<open>processImage\<close>: \<open>Inl\<close> is a rejected promise (the function throws), \<open>Inr\<close> a
  fulfilled one, with the events that happened and the value returned (\<open>None\<close> is
  \<open>null\<close>).
\<close>

definition processImage ::
  "HTMLCanvasElement \<Rightarrow> ImageData \<Rightarrow> (nat \<Rightarrow> string \<Rightarrow> unit attempt) \<Rightarrow>
   (u8 list \<Rightarrow> nat \<Rightarrow> nat \<Rightarrow> QRCode option attempt) \<Rightarrow>
   error + event list \<times> QRResult option" where
  "processImage canvas imageData onProgress jsQR =
     (if \<not> has_context_2d canvas then Inl CanvasContextNotAvailable
      else Inr (try_strategies onProgress jsQR imageData processingStrategies))"


subsection \<open>Notions for stating the properties\<close>

text \<open>
  The frame of a bitmap is what no filter may change: its dimensions, the length of its
  buffer and its alpha bytes. \<open>keeps_frame img res\<close> says that \<open>res\<close> is a bitmap
  with the frame of \<open>img\<close>.
\<close>

definition keeps_frame :: "ImageData \<Rightarrow> error + ImageData \<Rightarrow> bool" where
  "keeps_frame img res =
     (case res of
        Inl _ \<Rightarrow> False
      | Inr out \<Rightarrow>
          width out = width img \<and> height out = height img \<and>
          length (data out) = width img * height img * 4 \<and>
          (\<forall>p<width img * height img. data out ! (4 * p + 3) = data img ! (4 * p + 3)))"


text \<open>
  For the pipeline: what a strategy alone yields on the original bitmap (\<open>decode_of\<close>,
  where a fault of the callback, the filter or the decoder is no result), what the decoder
  is called with (\<open>decoder_input\<close>), the strategies the loop gets to (\<open>tried\<close>: those
  without a result, then the first with one) and the result of the first that has one
  (\<open>first_result\<close>); \<open>reports\<close> and \<open>decodes\<close> project the progress reports and the
  decoder calls out of the events.
\<close>

definition to_result :: "QRCode \<Rightarrow> QRResult" where
  "to_result code = \<lparr>qr_data = code_data code, qr_location = code_location code\<rparr>"

definition decode_of ::
  "(nat \<Rightarrow> string \<Rightarrow> unit attempt) \<Rightarrow> (u8 list \<Rightarrow> nat \<Rightarrow> nat \<Rightarrow> QRCode option attempt) \<Rightarrow>
   ImageData \<Rightarrow> ProcessingStrategy \<Rightarrow> QRCode option" where
  "decode_of onProgress jsQR img s =
     (case onProgress (progress s) (name s) of
        Throws \<Rightarrow> None
      | Returns _ \<Rightarrow>
          (case fn s img of
             Inl _ \<Rightarrow> None
           | Inr p \<Rightarrow>
               (case jsQR (data p) (width p) (height p) of
                  Throws \<Rightarrow> None
                | Returns r \<Rightarrow> r)))"

definition decoder_input ::
  "(nat \<Rightarrow> string \<Rightarrow> unit attempt) \<Rightarrow> ImageData \<Rightarrow> ProcessingStrategy \<Rightarrow>
   (u8 list \<times> nat \<times> nat) option" where
  "decoder_input onProgress img s =
     (case onProgress (progress s) (name s) of
        Throws \<Rightarrow> None
      | Returns _ \<Rightarrow>
          (case fn s img of
             Inl _ \<Rightarrow> None
           | Inr p \<Rightarrow> Some (data p, width p, height p)))"

fun reports :: "event list \<Rightarrow> (nat \<times> string) list" where
  "reports [] = []"
| "reports (Progress p n # evs) = (p, n) # reports evs"
| "reports (_ # evs) = reports evs"

fun decodes :: "event list \<Rightarrow> (u8 list \<times> nat \<times> nat) list" where
  "decodes [] = []"
| "decodes (Decode d w h # evs) = (d, w, h) # decodes evs"
| "decodes (_ # evs) = decodes evs"

definition tried ::
  "(nat \<Rightarrow> string \<Rightarrow> unit attempt) \<Rightarrow> (u8 list \<Rightarrow> nat \<Rightarrow> nat \<Rightarrow> QRCode option attempt) \<Rightarrow>
   ImageData \<Rightarrow> ProcessingStrategy list \<Rightarrow> ProcessingStrategy list" where
  "tried onProgress jsQR img ss =
     takeWhile (\<lambda>s. decode_of onProgress jsQR img s = None) ss @
     take 1 (dropWhile (\<lambda>s. decode_of onProgress jsQR img s = None) ss)"

definition first_result ::
  "(nat \<Rightarrow> string \<Rightarrow> unit attempt) \<Rightarrow> (u8 list \<Rightarrow> nat \<Rightarrow> nat \<Rightarrow> QRCode option attempt) \<Rightarrow>
   ImageData \<Rightarrow> ProcessingStrategy list \<Rightarrow> QRResult option" where
  "first_result onProgress jsQR img ss =
     (case dropWhile (\<lambda>s. decode_of onProgress jsQR img s = None) ss of
        [] \<Rightarrow> None
      | s # _ \<Rightarrow> map_option to_result (decode_of onProgress jsQR img s))"

text \<open>Bitmaps and collaborators for the examples.\<close>

definition two_pixels :: ImageData where
  "two_pixels = \<lparr>data = [100, 150, 200, 255, 0, 36, 12, 7], width = 2, height = 1\<rparr>"

definition four_by_three :: ImageData where
  "four_by_three =
     \<lparr>data = [0, 0, 0, 255,   0, 0, 0, 255,   0, 0, 0, 255,   0, 0, 0, 255,
              0, 0, 0, 255,  10, 0, 0, 255,   5, 0, 0, 255,   0, 0, 0, 255,
              0, 0, 0, 255,   0, 0, 0, 255,   0, 0, 0, 255,   0, 0, 0, 255],
      width = 4, height = 3\<rparr>"

definition three_by_three :: ImageData where
  "three_by_three =
     \<lparr>data = [0, 0, 0, 255,         255, 255, 255, 255,   255, 255, 255, 255,
              255, 255, 255, 255,   255, 255, 255, 9,     255, 255, 255, 255,
              255, 255, 255, 255,   255, 255, 255, 255,   255, 255, 255, 255],
      width = 3, height = 3\<rparr>"

definition some_corners :: Location where
  "some_corners = \<lparr>topLeftCorner = (0, 0), topRightCorner = (1, 0),
                    bottomLeftCorner = (0, 1), bottomRightCorner = (1, 1)\<rparr>"

definition some_code :: QRCode where
  "some_code = \<lparr>code_data = ''hello'', code_location = some_corners, code_version = 1\<rparr>"

text \<open>A decoder that finds a code in black-and-white bitmaps only, and a callback that returns.\<close>

definition bilevel_decoder :: "u8 list \<Rightarrow> nat \<Rightarrow> nat \<Rightarrow> QRCode option attempt" where
  "bilevel_decoder d w h =
     (if list_all (\<lambda>v. v = 0 \<or> v = 255) (take 3 d) then Returns (Some some_code)
      else Returns None)"

definition quiet_progress :: "nat \<Rightarrow> string \<Rightarrow> unit attempt" where
  "quiet_progress p n = Returns ()"

definition canvas_2d :: HTMLCanvasElement where
  "canvas_2d = \<lparr>has_context_2d = True\<rparr>"

definition canvas_without_context :: HTMLCanvasElement where
  "canvas_without_context = \<lparr>has_context_2d = False\<rparr>"

section \<open>Content classification and parsing (src/lib/scan-content-utils.ts)\<close>

subsection \<open>JavaScript strings\<close>

text \<open>
  A JavaScript string is a sequence of UTF-16 code units. It is modelled as a \<open>string\<close>
  whose characters are the code units U+0000 to U+00FF. The operations below are those of
  \<open>String.prototype\<close> on such strings: \<open>\s\<close> and \<open>trim\<close> know seven white-space
  characters in this range, \<open>\d\<close> is an ASCII digit, and the letters of the patterns are
  ASCII letters.
\<close>

definition is_digit :: "char \<Rightarrow> bool" where
  "is_digit c = (c \<in> set ''0123456789'')"

definition is_alpha :: "char \<Rightarrow> bool" where
  "is_alpha c = (c \<in> set ''abcdefghijklmnopqrstuvwxyzABCDEFGHIJKLMNOPQRSTUVWXYZ'')"

definition is_alnum :: "char \<Rightarrow> bool" where
  "is_alnum c = (is_alpha c \<or> is_digit c)"

definition is_space :: "char \<Rightarrow> bool" where
  "is_space c =
     (c \<in> set [CHR 0x09, CHR ''\<newline>'', CHR 0x0B, CHR 0x0C, CHR 0x0D, CHR '' '', CHR 0xA0])"

definition is_line_terminator :: "char \<Rightarrow> bool" where
  "is_line_terminator c = (c \<in> set [CHR ''\<newline>'', CHR 0x0D])"

definition trim :: "string \<Rightarrow> string" where
  "trim s = rev (dropWhile is_space (rev (dropWhile is_space s)))"

definition startsWith :: "string \<Rightarrow> string \<Rightarrow> bool" where
  "startsWith s p = (take (length p) s = p)"

definition js_includes :: "string \<Rightarrow> string \<Rightarrow> bool" where
  "js_includes s p = list_ex (\<lambda>i. startsWith (drop i s) p) [0..<Suc (length s)]"

definition indexOf :: "string \<Rightarrow> char \<Rightarrow> nat option" where
  "indexOf s c = (if c \<in> set s then Some (length (takeWhile (\<lambda>x. x \<noteq> c) s)) else None)"

text \<open>\<open>s.split(c)\<close> for a separator of one character: never an empty array.\<close>

fun split :: "string \<Rightarrow> char \<Rightarrow> string list" where
  "split [] c = [[]]"
| "split (x # xs) c =
     (if x = c then [] # split xs c
      else case split xs c of [] \<Rightarrow> [[x]] | p # ps \<Rightarrow> (x # p) # ps)"

text \<open>
  \<open>s.split(/\r?\n/)\<close>: the pieces between line feeds, each piece that a line feed ends
  without the one carriage return before that line feed.
\<close>

definition strip_cr :: "string \<Rightarrow> string" where
  "strip_cr p = (if p \<noteq> [] \<and> last p = CHR 0x0D then butlast p else p)"

definition split_lines :: "string \<Rightarrow> string list" where
  "split_lines s =
     (let ps = split s CHR ''\<newline>'' in map strip_cr (butlast ps) @ [last ps])"

fun join :: "string list \<Rightarrow> string \<Rightarrow> string" where
  "join [] sep = []"
| "join [x] sep = x"
| "join (x # y # ys) sep = x @ sep @ join (y # ys) sep"

definition upper_letters :: string where
  "upper_letters = ''ABCDEFGHIJKLMNOPQRSTUVWXYZ'' @
     [
      CHR 0xC0, CHR 0xC1, CHR 0xC2, CHR 0xC3, CHR 0xC4, CHR 0xC5, CHR 0xC6, CHR 0xC7,
      CHR 0xC8, CHR 0xC9, CHR 0xCA, CHR 0xCB, CHR 0xCC, CHR 0xCD, CHR 0xCE, CHR 0xCF,
      CHR 0xD0, CHR 0xD1, CHR 0xD2, CHR 0xD3, CHR 0xD4, CHR 0xD5, CHR 0xD6, CHR 0xD8,
      CHR 0xD9, CHR 0xDA, CHR 0xDB, CHR 0xDC, CHR 0xDD, CHR 0xDE]"

definition lower_letters :: string where
  "lower_letters = ''abcdefghijklmnopqrstuvwxyz'' @
     [
      CHR 0xE0, CHR 0xE1, CHR 0xE2, CHR 0xE3, CHR 0xE4, CHR 0xE5, CHR 0xE6, CHR 0xE7,
      CHR 0xE8, CHR 0xE9, CHR 0xEA, CHR 0xEB, CHR 0xEC, CHR 0xED, CHR 0xEE, CHR 0xEF,
      CHR 0xF0, CHR 0xF1, CHR 0xF2, CHR 0xF3, CHR 0xF4, CHR 0xF5, CHR 0xF6, CHR 0xF8,
      CHR 0xF9, CHR 0xFA, CHR 0xFB, CHR 0xFC, CHR 0xFD, CHR 0xFE]"

definition toLowerCase :: "string \<Rightarrow> string" where
  "toLowerCase s =
     map (\<lambda>c. case map_of (zip upper_letters lower_letters) c of None \<Rightarrow> c | Some l \<Rightarrow> l) s"

text \<open>
  \<open>toUpperCase\<close> is used once, on a field name that is then compared with names in
  ASCII capitals. A character outside ASCII has no ASCII capital as its upper case
  (U+00DF becomes \<open>SS\<close>, which no field name contains), so it is left as it is: the
  comparisons come out as in the source.
\<close>

definition toUpperCase :: "string \<Rightarrow> string" where
  "toUpperCase s =
     map (\<lambda>c. case map_of (zip ''abcdefghijklmnopqrstuvwxyz'' ''ABCDEFGHIJKLMNOPQRSTUVWXYZ'') c of
                None \<Rightarrow> c | Some u \<Rightarrow> u) s"

text \<open>\<open>s.match(re)\<close> without the \<open>g\<close> flag tries the start positions from the left.\<close>

fun first_match :: "(string \<Rightarrow> 'a option) \<Rightarrow> string \<Rightarrow> 'a option" where
  "first_match m [] = m []"
| "first_match m (x # xs) =
     (case m (x # xs) of Some r \<Rightarrow> Some r | None \<Rightarrow> first_match m xs)"

subsection \<open>The content type\<close>

datatype ContentType =
  Type_vcard | Type_url | Type_email | Type_phone | Type_wifi | Type_location | Type_sms
| Type_text | Type_empty

text \<open>\<open>/^(\+?[\d\s\-\(\)]{10,})$/\<close>\<close>

definition phone_char :: "char \<Rightarrow> bool" where
  "phone_char c = (is_digit c \<or> is_space c \<or> c \<in> set ''-()'')"

definition phonePattern :: "string \<Rightarrow> bool" where
  "phonePattern s =
     (let r = (case s of [] \<Rightarrow> [] | c # t \<Rightarrow> if c = CHR ''+'' then t else s)
      in 10 \<le> length r \<and> list_all phone_char r)"

text \<open>\<open>/^[^\s@]+@[^\s@]+\.[^\s@]+$/\<close>\<close>

definition emailPattern :: "string \<Rightarrow> bool" where
  "emailPattern s =
     (let local = takeWhile (\<lambda>c. c \<noteq> CHR ''@'') s;
          r = dropWhile (\<lambda>c. c \<noteq> CHR ''@'') s
      in local \<noteq> [] \<and> r \<noteq> [] \<and> list_all (\<lambda>c. \<not> is_space c) local \<and>
         list_all (\<lambda>c. \<not> is_space c \<and> c \<noteq> CHR ''@'') (tl r) \<and>
         list_ex (\<lambda>i. tl r ! i = CHR ''.'') [1..<length (tl r) - 1])"

text \<open>
  \<open>-?\d+\.?\d*\<close> at the start of a string: the text it matches, the longest there is,
  and the rest.
\<close>

definition number_prefix :: "string \<Rightarrow> (string \<times> string) option" where
  "number_prefix s =
     (let sign = (if startsWith s ''-'' then ''-'' else []);
          r = drop (length sign) s;
          digits = takeWhile is_digit r;
          r = dropWhile is_digit r;
          dot = (if startsWith r ''.'' then ''.'' else []);
          r = drop (length dot) r;
          fraction = takeWhile is_digit r;
          r = dropWhile is_digit r
      in if digits = [] then None else Some (sign @ digits @ dot @ fraction, r))"

text \<open>\<open>geo:(-?\d+\.?\d*),(-?\d+\.?\d*)\<close> at the start of a string, with its two groups.\<close>

definition geo_at :: "string \<Rightarrow> (string \<times> string) option" where
  "geo_at s =
     (if startsWith s ''geo:'' then
        (case number_prefix (drop 4 s) of
           None \<Rightarrow> None
         | Some (lat, r) \<Rightarrow>
             if startsWith r '','' then
               (case number_prefix (drop 1 r) of
                  None \<Rightarrow> None
                | Some (lng, _) \<Rightarrow> Some (lat, lng))
             else None)
      else None)"

text \<open>\<open>/^geo:-?\d+\.?\d*,-?\d+\.?\d*/\<close>\<close>

definition geoPattern :: "string \<Rightarrow> bool" where
  "geoPattern s = (geo_at s \<noteq> None)"

text \<open>\<open>/^(www\.)?[a-zA-Z0-9][a-zA-Z0-9-]*[a-zA-Z0-9]*\.[a-zA-Z]{2,}/\<close>\<close>

definition domain_at :: "string \<Rightarrow> bool" where
  "domain_at s =
     (case s of
        [] \<Rightarrow> False
      | c # t \<Rightarrow>
          is_alnum c \<and>
          (case dropWhile (\<lambda>c. is_alnum c \<or> c = CHR ''-'') t of
             d # x # y # _ \<Rightarrow> d = CHR ''.'' \<and> is_alpha x \<and> is_alpha y
           | _ \<Rightarrow> False))"

definition urlPattern :: "string \<Rightarrow> bool" where
  "urlPattern s = ((startsWith s ''www.'' \<and> domain_at (drop 4 s)) \<or> domain_at s)"

text \<open>
  \<open>detectContentType\<close>. \<open>new URL(content)\<close> is the platform's URL parser; it throws on
  a string that is not an absolute URL. It is the parameter \<open>url_ok\<close>: whether the parser
  accepts the string.
\<close>

definition detectContentType :: "(string \<Rightarrow> bool) \<Rightarrow> string \<Rightarrow> ContentType" where
  "detectContentType url_ok content0 =
     (if content0 = [] \<or> trim content0 = [] then Type_empty
      else
        let content = trim content0 in
        if startsWith content ''BEGIN:VCARD'' \<and> js_includes content ''END:VCARD'' then Type_vcard
        else if startsWith content ''WIFI:'' then Type_wifi
        else if startsWith content ''SMSTO:'' \<or> startsWith content ''sms:'' then Type_sms
        else if phonePattern content \<or> startsWith content ''tel:'' then Type_phone
        else if emailPattern content \<or> startsWith content ''mailto:'' then Type_email
        else if geoPattern content then Type_location
        else if url_ok content then Type_url
        else if urlPattern content then Type_url
        else Type_text)"

subsection \<open>Contact cards\<close>

text \<open>
  \<open>VCardContact\<close>. A property that is absent or \<open>undefined\<close> is \<open>None\<close>. The object
  \<open>unmappedFields\<close> is a map from its keys to their values; the order in which a
  JavaScript object enumerates its keys is not modelled. The object is a plain one, so an
  assignment of a string to its key \<open>__proto__\<close> goes to the setter it inherits, which
  ignores a string: nothing is stored.
\<close>

record ContactName =
  name_formatted :: "string option"
  name_given :: "string option"
  name_family :: "string option"
  name_prefix :: "string option"
  name_suffix :: "string option"

record TypedValue =
  entry_type :: string
  entry_value :: string

record Organization =
  org_name :: "string option"
  org_title :: "string option"

record Address =
  adr_type :: string
  adr_street :: "string option"
  adr_city :: "string option"
  adr_state :: "string option"
  adr_zip :: "string option"
  adr_country :: "string option"
  adr_formatted :: "string option"

record VCardContact =
  contact_name :: "ContactName option"
  emails :: "TypedValue list option"
  phones :: "TypedValue list option"
  organization :: "Organization option"
  addresses :: "Address list option"
  urls :: "TypedValue list option"
  contact_notes :: "string option"
  unmappedFields :: "string \<rightharpoonup> string"

definition empty_contact :: VCardContact where
  "empty_contact =
     \<lparr>contact_name = None, emails = None, phones = None, organization = None,
      addresses = None, urls = None, contact_notes = None, unmappedFields = Map.empty\<rparr>"

text \<open>\<open>{ ...contact.name }\<close> and \<open>{ ...contact.organization }\<close>: the properties there are.\<close>

definition spread_name :: "ContactName option \<Rightarrow> ContactName" where
  "spread_name n =
     (case n of
        None \<Rightarrow> \<lparr>name_formatted = None, name_given = None, name_family = None,
                 name_prefix = None, name_suffix = None\<rparr>
      | Some m \<Rightarrow> m)"

definition spread_organization :: "Organization option \<Rightarrow> Organization" where
  "spread_organization n =
     (case n of None \<Rightarrow> \<lparr>org_name = None, org_title = None\<rparr> | Some m \<Rightarrow> m)"

text \<open>
  \<open>parts[i] || undefined\<close> for an element of a destructured array: \<open>None\<close> when the
  array is too short or the element is the empty string.
\<close>

definition part_or_undefined :: "string list \<Rightarrow> nat \<Rightarrow> string option" where
  "part_or_undefined parts i =
     (if i < length parts \<and> parts ! i \<noteq> [] then Some (parts ! i) else None)"

text \<open>
  \<open>params.find(p => p.startsWith('TYPE='))?.replace('TYPE=', '') || 'default'\<close>: the
  parameter found starts with \<open>TYPE=\<close>, so \<open>replace\<close> drops its first five characters.
\<close>

definition typeParam_of :: "string list \<Rightarrow> string" where
  "typeParam_of params =
     (case find (\<lambda>p. startsWith p ''TYPE='') params of
        None \<Rightarrow> ''default''
      | Some p \<Rightarrow> if drop 5 p = [] then ''default'' else drop 5 p)"

text \<open>The block of \<open>case 'TEL'\<close> that computes \<open>cleanType\<close>.\<close>

definition cleanType_of :: "string \<Rightarrow> string" where
  "cleanType_of typeParam =
     (if typeParam \<noteq> [] then
        (let types = toLowerCase typeParam in
         if js_includes types ''cell'' \<or> js_includes types ''mobile'' then ''mobile''
         else if js_includes types ''work'' then ''work''
         else if js_includes types ''home'' then ''home''
         else if js_includes types ''fax'' then ''fax''
         else trim (hd (split types CHR '','')))
      else ''phone'')"

definition push :: "'a list option \<Rightarrow> 'a \<Rightarrow> 'a list option" where
  "push xs x = (case xs of None \<Rightarrow> Some [x] | Some ys \<Rightarrow> Some (ys @ [x]))"

text \<open>The block of \<open>case 'ADR'\<close>.\<close>

definition address_of :: "string \<Rightarrow> string \<Rightarrow> Address" where
  "address_of typeParam v =
     (let parts = split v CHR '';'';
          street = part_or_undefined parts 2;
          city = part_or_undefined parts 3;
          state = part_or_undefined parts 4;
          zip = part_or_undefined parts 5;
          country = part_or_undefined parts 6;
          cityZipLine = (case zip of None \<Rightarrow> [] | Some z \<Rightarrow> [z]) @
                        (case city of None \<Rightarrow> [] | Some c \<Rightarrow> [c]);
          addressParts = (case street of None \<Rightarrow> [] | Some s \<Rightarrow> [s]) @
                         (if cityZipLine \<noteq> [] then [join cityZipLine '' ''] else []) @
                         (case state of None \<Rightarrow> [] | Some s \<Rightarrow> [s]) @
                         (case country of None \<Rightarrow> [] | Some c \<Rightarrow> [c]);
          formatted = join (filter (\<lambda>p. p \<noteq> []) addressParts) '', ''
      in \<lparr>adr_type = toLowerCase typeParam, adr_street = street, adr_city = city,
          adr_state = state, adr_zip = zip, adr_country = country,
          adr_formatted = (if formatted = [] then None else Some formatted)\<rparr>)"

text \<open>The body of the loop of \<open>parseVCard\<close> over the lines.\<close>

definition vcard_line :: "VCardContact \<Rightarrow> string \<Rightarrow> VCardContact" where
  "vcard_line contact line =
     (if startsWith line ''BEGIN:'' \<or> startsWith line ''END:'' \<or> startsWith line ''VERSION:''
      then contact
      else
        case indexOf line CHR '':'' of
          None \<Rightarrow> contact
        | Some colonIndex \<Rightarrow>
            let fieldPart = take colonIndex line;
                v = drop (colonIndex + 1) line;
                field = hd (split fieldPart CHR '';'');
                params = tl (split fieldPart CHR '';'');
                typeParam = typeParam_of params;
                tag = toUpperCase field
            in
              if tag = ''FN'' then
                contact\<lparr>contact_name :=
                  Some ((spread_name (contact_name contact))\<lparr>name_formatted := Some v\<rparr>)\<rparr>
              else if tag = ''N'' then
                contact\<lparr>contact_name :=
                  Some ((spread_name (contact_name contact))
                    \<lparr>name_family := part_or_undefined (split v CHR '';'') 0,
                     name_given := part_or_undefined (split v CHR '';'') 1,
                     name_prefix := part_or_undefined (split v CHR '';'') 3,
                     name_suffix := part_or_undefined (split v CHR '';'') 4\<rparr>)\<rparr>
              else if tag = ''EMAIL'' then
                contact\<lparr>emails := push (emails contact)
                  \<lparr>entry_type = toLowerCase typeParam, entry_value = v\<rparr>\<rparr>
              else if tag = ''TEL'' then
                contact\<lparr>phones := push (phones contact)
                  \<lparr>entry_type = cleanType_of typeParam, entry_value = v\<rparr>\<rparr>
              else if tag = ''ORG'' then
                contact\<lparr>organization :=
                  Some ((spread_organization (organization contact))\<lparr>org_name := Some v\<rparr>)\<rparr>
              else if tag = ''TITLE'' then
                contact\<lparr>organization :=
                  Some ((spread_organization (organization contact))\<lparr>org_title := Some v\<rparr>)\<rparr>
              else if tag = ''ADR'' then
                contact\<lparr>addresses := push (addresses contact) (address_of typeParam v)\<rparr>
              else if tag = ''URL'' then
                contact\<lparr>urls := push (urls contact)
                  \<lparr>entry_type = toLowerCase typeParam, entry_value = v\<rparr>\<rparr>
              else if tag = ''NOTE'' then contact\<lparr>contact_notes := Some v\<rparr>
              else if toLowerCase field = ''__proto__'' then contact
              else contact\<lparr>unmappedFields := (unmappedFields contact)(toLowerCase field \<mapsto> v)\<rparr>)"

definition parseVCard :: "string \<Rightarrow> VCardContact" where
  "parseVCard vcardString =
     (let lines = filter (\<lambda>line. 0 < length line) (map trim (split_lines vcardString))
      in fold (\<lambda>line contact. vcard_line contact line) lines empty_contact)"

subsection \<open>Parsed content\<close>

datatype ActionType = Copy | Call | Email | Open | Sms | Navigate

record ContentAction =
  action_type :: ActionType
  action_label :: string
  action_value :: string
  action_icon :: "string option"

text \<open>
  The property \<open>data\<close> of a \<open>ParsedContent\<close> has type \<open>any\<close>; these are the shapes the
  source gives it. A number is a double: a rational, or one of the three values that are not.
\<close>

datatype js_number = Number rat | NegativeZero | PositiveInfinity | NegativeInfinity

datatype ContentData =
  Null
| ContactData VCardContact
| UrlData string string
| EmailData string
| PhoneData string
| WifiData string string string bool
| LocationData js_number js_number
| SmsData string string
| TextData string

record ParsedContent =
  content_type :: ContentType
  content_data :: ContentData
  displayText :: string
  actions :: "ContentAction list"

text \<open>A string is truthy when it is there and not empty.\<close>

definition truthy :: "string option \<Rightarrow> bool" where
  "truthy s = (case s of None \<Rightarrow> False | Some t \<Rightarrow> t \<noteq> [])"

definition displayName_of :: "VCardContact \<Rightarrow> string" where
  "displayName_of contact =
     (let n = spread_name (contact_name contact) in
      if truthy (name_formatted n) then the (name_formatted n)
      else if truthy (name_given n) \<and> truthy (name_family n)
        then the (name_given n) @ '' '' @ the (name_family n)
      else ''Contact'')"

definition call_action :: "TypedValue \<Rightarrow> ContentAction" where
  "call_action phone =
     (let typeLabel = (if entry_type phone \<noteq> [] \<and> entry_type phone \<noteq> ''phone''
                       then '' ('' @ entry_type phone @ '')'' else [])
      in \<lparr>action_type = Call, action_label = ''Call '' @ entry_value phone @ typeLabel,
          action_value = entry_value phone, action_icon = Some ''phone''\<rparr>)"

text \<open>\<open>case 'vcard'\<close> of \<open>parseContent\<close>.\<close>

definition parse_vcard :: "string \<Rightarrow> ParsedContent" where
  "parse_vcard content =
     (let contact = parseVCard content;
          calls = (case phones contact of None \<Rightarrow> [] | Some ps \<Rightarrow> map call_action ps);
          mails = (case emails contact of
                     None \<Rightarrow> []
                   | Some [] \<Rightarrow> []
                   | Some (e # _) \<Rightarrow>
                       [\<lparr>action_type = Email, action_label = ''Email '' @ entry_value e,
                         action_value = entry_value e, action_icon = Some ''envelope''\<rparr>])
      in \<lparr>content_type = Type_vcard, content_data = ContactData contact,
          displayText = displayName_of contact,
          actions = calls @ mails @
            [\<lparr>action_type = Copy, action_label = ''Copy vCard'', action_value = content,
              action_icon = Some ''clipboard''\<rparr>]\<rparr>)"

text \<open>\<open>case 'url'\<close> of \<open>parseContent\<close>.\<close>

definition parse_url :: "string \<Rightarrow> ParsedContent" where
  "parse_url content =
     (let processedUrl =
            (if \<not> startsWith content ''http://'' \<and> \<not> startsWith content ''https://''
             then ''https://'' @ content else content)
      in \<lparr>content_type = Type_url, content_data = UrlData processedUrl content,
          displayText = content,
          actions =
            [\<lparr>action_type = Open, action_label = ''Open Website'', action_value = processedUrl,
              action_icon = Some ''external-link''\<rparr>,
             \<lparr>action_type = Copy, action_label = ''Copy URL'', action_value = content,
              action_icon = Some ''clipboard''\<rparr>]\<rparr>)"

definition copy_text :: "string \<Rightarrow> ContentAction" where
  "copy_text content =
     \<lparr>action_type = Copy, action_label = ''Copy Text'', action_value = content,
      action_icon = Some ''clipboard''\<rparr>"

text \<open>The \<open>return\<close> after the \<open>switch\<close>, reached when a pattern of a case does not match.\<close>

definition fallback_text :: "string \<Rightarrow> ParsedContent" where
  "fallback_text content =
     \<lparr>content_type = Type_text, content_data = TextData content, displayText = content,
      actions = [copy_text content]\<rparr>"

text \<open>\<open>/WIFI:T:([^;]*);S:([^;]*);P:([^;]*);H:([^;]*);?/\<close> at the start of a string.\<close>

definition wifi_at :: "string \<Rightarrow> (string \<times> string \<times> string \<times> string) option" where
  "wifi_at s =
     (let upto = takeWhile (\<lambda>c. c \<noteq> CHR '';''); after = dropWhile (\<lambda>c. c \<noteq> CHR '';'') in
      if startsWith s ''WIFI:T:'' then
        (let r = drop 7 s; security = upto r; r = after r in
         if startsWith r '';S:'' then
           (let r = drop 3 r; ssid = upto r; r = after r in
            if startsWith r '';P:'' then
              (let r = drop 3 r; password = upto r; r = after r in
               if startsWith r '';H:'' then Some (security, ssid, password, upto (drop 3 r))
               else None)
            else None)
         else None)
      else None)"

text \<open>\<open>/(?:SMSTO:|sms:)([^:?]*)[?:]?(.*)/\<close> at the start of a string.\<close>

definition sms_at :: "string \<Rightarrow> (string \<times> string) option" where
  "sms_at s =
     (let r = (if startsWith s ''SMSTO:'' then Some (drop 6 s)
               else if startsWith s ''sms:'' then Some (drop 4 s) else None)
      in case r of
           None \<Rightarrow> None
         | Some r \<Rightarrow>
             let number = takeWhile (\<lambda>c. c \<noteq> CHR '':'' \<and> c \<noteq> CHR ''?'') r;
                 r = dropWhile (\<lambda>c. c \<noteq> CHR '':'' \<and> c \<noteq> CHR ''?'') r
             in Some (number, takeWhile (\<lambda>c. \<not> is_line_terminator c) (drop 1 r)))"

text \<open>
  \<open>parseFloat\<close> on a text that matches \<open>-?\d+\.?\d*\<close>, which is what the source gives
  it. The text denotes the decimal \<open>n / d\<close>; the result is the double nearest to it, the
  one with the even significand when two are equally near. With \<open>2 ^ e \<le> n / d < 2 ^ (e + 1)\<close>
  the doubles around \<open>n / d\<close> are the multiples of \<open>2 ^ u\<close>, where \<open>u = e - 52\<close>, and
  \<open>u = - 1074\<close> below the normal range; a result of \<open>2 ^ 1024\<close> is the infinity. (ECMAScript
  lets an engine read the digits after the twentieth as zeros; the engines in use read all
  of them.)
\<close>

definition digits_value :: "string \<Rightarrow> nat" where
  "digits_value ds = foldl (\<lambda>a c. 10 * a + (of_char c - 48)) 0 ds"

definition round_half_even :: "nat \<Rightarrow> nat \<Rightarrow> nat" where
  "round_half_even n d =
     (let q = n div d; r = n mod d
      in if d < 2 * r \<or> (2 * r = d \<and> odd q) then q + 1 else q)"

definition nearest_double :: "nat \<Rightarrow> nat \<Rightarrow> rat option" where
  "nearest_double n d =
     (let e0 = int (bit_length n) - int (bit_length d);
          e = (if d * 2 ^ nat e0 \<le> n * 2 ^ nat (- e0) then e0 else e0 - 1);
          u = max (e - 52) (- 1074);
          q = round_half_even (n * 2 ^ nat (- u)) (d * 2 ^ nat u)
      in if 0 \<le> u \<and> 2 ^ 1024 \<le> q * 2 ^ nat u then None
         else Some (of_nat (q * 2 ^ nat u) / of_nat (2 ^ nat (- u))))"

definition parseFloat :: "string \<Rightarrow> js_number" where
  "parseFloat s =
     (let negative = startsWith s ''-'';
          r = (if negative then drop 1 s else s);
          whole = takeWhile is_digit r;
          fraction = takeWhile is_digit (drop 1 (dropWhile is_digit r));
          n = digits_value (whole @ fraction);
          d = 10 ^ length fraction
      in if n = 0 then (if negative then NegativeZero else Number 0)
         else
           (case nearest_double n d of
              None \<Rightarrow> if negative then NegativeInfinity else PositiveInfinity
            | Some m \<Rightarrow>
                if m = 0 then (if negative then NegativeZero else Number 0)
                else Number (if negative then - m else m)))"

text \<open>\<open>encodeURIComponent\<close>: the UTF-8 bytes of a reserved character, in hexadecimal.\<close>

definition percent :: "nat \<Rightarrow> string" where
  "percent b = [CHR ''%'', ''0123456789ABCDEF'' ! (b div 16), ''0123456789ABCDEF'' ! (b mod 16)]"

definition encodeURIComponent :: "string \<Rightarrow> string" where
  "encodeURIComponent s =
     concat (map (\<lambda>c.
       if is_alnum c \<or> c \<in> set (''-_.!~*()'' @ [CHR 0x27]) then [c]
       else if (of_char c :: nat) < 128 then percent (of_char c)
       else percent (192 + of_char c div 64) @ percent (128 + of_char c mod 64)) s)"

definition parseContent :: "(string \<Rightarrow> bool) \<Rightarrow> string \<Rightarrow> ParsedContent" where
  "parseContent url_ok content =
     (case detectContentType url_ok content of
        Type_empty \<Rightarrow>
          \<lparr>content_type = Type_empty, content_data = Null, displayText = ''No content found'',
           actions = []\<rparr>
      | Type_vcard \<Rightarrow> parse_vcard content
      | Type_url \<Rightarrow> parse_url content
      | Type_email \<Rightarrow>
          (let emailAddress = (if startsWith content ''mailto:'' then drop 7 content else content)
           in \<lparr>content_type = Type_email, content_data = EmailData emailAddress,
               displayText = emailAddress,
               actions =
                 [\<lparr>action_type = Email, action_label = ''Send Email'',
                   action_value = emailAddress, action_icon = Some ''envelope''\<rparr>,
                  \<lparr>action_type = Copy, action_label = ''Copy Email'',
                   action_value = emailAddress, action_icon = Some ''clipboard''\<rparr>]\<rparr>)
      | Type_phone \<Rightarrow>
          (let phoneNumber = (if startsWith content ''tel:'' then drop 4 content else content)
           in \<lparr>content_type = Type_phone, content_data = PhoneData phoneNumber,
               displayText = phoneNumber,
               actions =
                 [\<lparr>action_type = Call, action_label = ''Call Number'',
                   action_value = phoneNumber, action_icon = Some ''phone''\<rparr>,
                  \<lparr>action_type = Sms, action_label = ''Send SMS'',
                   action_value = phoneNumber, action_icon = Some ''chat-bubble-left''\<rparr>,
                  \<lparr>action_type = Copy, action_label = ''Copy Number'',
                   action_value = phoneNumber, action_icon = Some ''clipboard''\<rparr>]\<rparr>)
      | Type_wifi \<Rightarrow>
          (case first_match wifi_at content of
             Some (security, ssid, password, hidden) \<Rightarrow>
               \<lparr>content_type = Type_wifi,
                content_data = WifiData security ssid password (hidden = ''true''),
                displayText = ''WiFi: '' @ ssid,
                actions =
                  [\<lparr>action_type = Copy, action_label = ''Copy WiFi Info'',
                    action_value = content, action_icon = Some ''clipboard''\<rparr>]\<rparr>
           | None \<Rightarrow> fallback_text content)
      | Type_location \<Rightarrow>
          (case first_match geo_at content of
             Some (lat, lng) \<Rightarrow>
               \<lparr>content_type = Type_location,
                content_data = LocationData (parseFloat lat) (parseFloat lng),
                displayText = ''Location: '' @ lat @ '', '' @ lng,
                actions =
                  [\<lparr>action_type = Navigate, action_label = ''Open in Maps'',
                    action_value = ''https://maps.google.com/maps?q='' @ lat @ '','' @ lng,
                    action_icon = Some ''map-pin''\<rparr>,
                   \<lparr>action_type = Copy, action_label = ''Copy Coordinates'',
                    action_value = lat @ '', '' @ lng, action_icon = Some ''clipboard''\<rparr>]\<rparr>
           | None \<Rightarrow> fallback_text content)
      | Type_sms \<Rightarrow>
          (case first_match sms_at content of
             Some (number, message) \<Rightarrow>
               \<lparr>content_type = Type_sms, content_data = SmsData (trim number) message,
                displayText =
                  ''SMS to '' @ number @ (if message \<noteq> [] then '': '' @ message else []),
                actions =
                  [\<lparr>action_type = Sms, action_label = ''Send SMS'',
                    action_value =
                      ''sms:'' @ number @
                      (if message \<noteq> [] then ''?body='' @ encodeURIComponent message else []),
                    action_icon = Some ''chat-bubble-left''\<rparr>,
                   \<lparr>action_type = Copy, action_label = ''Copy Content'',
                    action_value = content, action_icon = Some ''clipboard''\<rparr>]\<rparr>
           | None \<Rightarrow> fallback_text content)
      | Type_text \<Rightarrow>
          \<lparr>content_type = Type_text, content_data = TextData content,
           displayText =
             (if 100 < length content then take 100 content @ ''...'' else content),
           actions = [copy_text content]\<rparr>)"

text \<open>
  For the examples: the verdict of the platform's URL parser on the strings the examples
  use. It accepts \<open>ftp://example.com\<close>, \<open>HTTP://EXAMPLE.COM\<close> and \<open>https://example.com\<close>,
  which are absolute URLs.
\<close>

definition example_url_ok :: "string \<Rightarrow> bool" where
  "example_url_ok s =
     (s \<in> set [''ftp://example.com'', ''HTTP://EXAMPLE.COM'', ''https://example.com''])"


text \<open>
  For stating the properties: a string starts with a URL scheme (a letter, then letters,
  digits, \<open>+\<close>, \<open>-\<close> or \<open>.\<close>, then a colon); the type a \<open>TEL\<close> line gets from a
  \<open>TYPE\<close> parameter that is there and not empty.
\<close>

definition has_url_scheme :: "string \<Rightarrow> bool" where
  "has_url_scheme s =
     (case s of
        [] \<Rightarrow> False
      | c # t \<Rightarrow>
          is_alpha c \<and>
          (case dropWhile (\<lambda>c. is_alnum c \<or> c \<in> set ''+-.'') t of
             [] \<Rightarrow> False
           | d # _ \<Rightarrow> d = CHR '':''))"

definition tel_type :: "string \<Rightarrow> string" where
  "tel_type typeParam =
     (let types = toLowerCase typeParam in
      if js_includes types ''cell'' \<or> js_includes types ''mobile'' then ''mobile''
      else if js_includes types ''work'' then ''work''
      else if js_includes types ''home'' then ''home''
      else if js_includes types ''fax'' then ''fax''
      else trim (hd (split types CHR '','')))"



text \<open>
  The specification in its own words, where it differs from the source: the phone shape
  with ten digits, and the type of a \<open>TEL\<close> line with the raw first token and
  \<open>phone\<close> for an absent \<open>TYPE\<close>.
\<close>

definition claimed_phone_shape :: "string \<Rightarrow> bool" where
  "claimed_phone_shape s =
     (let r = (case s of [] \<Rightarrow> [] | c # t \<Rightarrow> if c = CHR ''+'' then t else s)
      in list_all (\<lambda>c. is_digit c \<or> c \<in> set '' -()'') r \<and> 10 \<le> length (filter is_digit r))"


section \<open>Properties of the filters\<close>

subsection \<open>Numbers\<close>

lemma factor_nearest: "2 * \<bar>factor * 656625 - 664335 * 2 ^ 56\<bar> < 656625 * 2 ^ 4"
  by (simp add: factor_def)










subsection \<open>Loops over the buffer\<close>









lemma new_ImageData_ok:
  assumes "0 < w" "0 < h" "length d = w * h * 4"
  shows "new_ImageData d w h = Inr \<lparr>data = d, width = w, height = h\<rparr>"
  using assms by (simp add: new_ImageData_def)











lemma fold_frame:
  assumes "\<And>x d. x \<in> set xs \<Longrightarrow> length (f x d) = length d \<and> f x d ! j = d ! j"
  shows "length (fold f xs d) = length d \<and> fold f xs d ! j = d ! j"
  using assms by (induction xs arbitrary: d) auto

lemma upd3_frame:
  "length (d[4 * k := a, 4 * k + 1 := b, 4 * k + 2 := c]) = length d \<and>
   d[4 * k := a, 4 * k + 1 := b, 4 * k + 2 := c] ! (4 * p + 3) = d ! (4 * p + 3)"
proof -
  have "4 * p + 3 \<noteq> 4 * k \<and> 4 * p + 3 \<noteq> 4 * k + 1 \<and> 4 * p + 3 \<noteq> 4 * k + 2" by arith
  then show ?thesis by simp
qed

lemma pixel_offsets_mult: "i \<in> set (pixel_offsets n) \<Longrightarrow> \<exists>k. i = 4 * k"
  by (auto simp: pixel_offsets_def)

lemma contrast_step_frame:
  "length (contrast_step (4 * k) d) = length d \<and>
   contrast_step (4 * k) d ! (4 * p + 3) = d ! (4 * p + 3)"
  unfolding contrast_step_def Let_def by (rule upd3_frame)

lemma histogram_step_frame:
  "length (histogram_step (4 * k) d) = length d \<and>
   histogram_step (4 * k) d ! (4 * p + 3) = d ! (4 * p + 3)"
  unfolding histogram_step_def Let_def by (rule upd3_frame)

lemma threshold_step_frame:
  "length (threshold_step t (4 * k) d) = length d \<and>
   threshold_step t (4 * k) d ! (4 * p + 3) = d ! (4 * p + 3)"
  unfolding threshold_step_def Let_def by (rule upd3_frame)

lemma inversion_step_frame:
  "length (inversion_step (4 * k) d) = length d \<and>
   inversion_step (4 * k) d ! (4 * p + 3) = d ! (4 * p + 3)"
  unfolding inversion_step_def Let_def by (rule upd3_frame)

lemma sharpen_pixel_frame:
  "length (sharpen_pixel w y x d) = length d \<and>
   sharpen_pixel w y x d ! (4 * p + 3) = d ! (4 * p + 3)"
proof -
  obtain r g b where k: "kernel_sums d w y x = (r, g, b)" by (cases "kernel_sums d w y x")
  have idx: "(y * w + x) * 4 = 4 * (y * w + x)" by simp
  show ?thesis unfolding sharpen_pixel_def k prod.case Let_def idx by (rule upd3_frame)
qed

lemma erode_pixel_frame:
  "length (erode_pixel temp w y x d) = length d \<and>
   erode_pixel temp w y x d ! (4 * p + 3) = d ! (4 * p + 3)"
proof -
  have idx: "(y * w + x) * 4 = 4 * (y * w + x)" by simp
  show ?thesis unfolding erode_pixel_def Let_def idx by (rule upd3_frame)
qed

lemma offsets_loop_frame:
  assumes "\<And>k d. length (f (4 * k) d) = length d \<and> f (4 * k) d ! (4 * p + 3) = d ! (4 * p + 3)"
  shows "length (fold f (pixel_offsets n) d) = length d \<and>
         fold f (pixel_offsets n) d ! (4 * p + 3) = d ! (4 * p + 3)"
proof (rule fold_frame)
  fix x d assume "x \<in> set (pixel_offsets n)"
  then obtain k where "x = 4 * k" using pixel_offsets_mult by blast
  with assms show "length (f x d) = length d \<and> f x d ! (4 * p + 3) = d ! (4 * p + 3)" by simp
qed

lemma rows_loop_frame:
  assumes "\<And>y x d. length (f y x d) = length d \<and> f y x d ! (4 * p + 3) = d ! (4 * p + 3)"
  shows "length (fold (\<lambda>y. fold (f y) xs) ys d) = length d \<and>
         fold (\<lambda>y. fold (f y) xs) ys d ! (4 * p + 3) = d ! (4 * p + 3)"
  by (rule fold_frame, rule fold_frame, rule assms)

lemma keeps_frameI:
  assumes "wf_image img"
    and "\<And>p. length d = length (data img) \<and> d ! (4 * p + 3) = data img ! (4 * p + 3)"
  shows "keeps_frame img (new_ImageData d (width img) (height img))"
proof -
  from assms have "new_ImageData d (width img) (height img) =
      Inr \<lparr>data = d, width = width img, height = height img\<rparr>"
    by (intro new_ImageData_ok) (simp_all add: wf_image_def)
  with assms show ?thesis by (simp add: keeps_frame_def wf_image_def)
qed

lemma identity_keeps_frame: "wf_image img \<Longrightarrow> keeps_frame img (Inr img)"
  by (simp add: keeps_frame_def wf_image_def)

lemma enhancedContrast_keeps_frame: "wf_image img \<Longrightarrow> keeps_frame img (enhancedContrast img)"
  unfolding enhancedContrast_def Let_def
  by (erule keeps_frameI, rule offsets_loop_frame, rule contrast_step_frame)

lemma adaptiveHistogram_keeps_frame: "wf_image img \<Longrightarrow> keeps_frame img (adaptiveHistogram img)"
  unfolding adaptiveHistogram_def Let_def
  by (erule keeps_frameI, rule offsets_loop_frame, rule histogram_step_frame)

lemma binaryThreshold_keeps_frame: "wf_image img \<Longrightarrow> keeps_frame img (binaryThreshold img)"
  unfolding binaryThreshold_def Let_def
  by (erule keeps_frameI, rule offsets_loop_frame, rule threshold_step_frame)

lemma sharpening_keeps_frame: "wf_image img \<Longrightarrow> keeps_frame img (sharpening img)"
  unfolding sharpening_def Let_def
  by (erule keeps_frameI, rule rows_loop_frame, rule sharpen_pixel_frame)

lemma colorInversion_keeps_frame: "wf_image img \<Longrightarrow> keeps_frame img (colorInversion img)"
  unfolding colorInversion_def Let_def
  by (erule keeps_frameI, rule offsets_loop_frame, rule inversion_step_frame)

lemma morphological_keeps_frame: "wf_image img \<Longrightarrow> keeps_frame img (morphological img)"
  unfolding morphological_def Let_def
  by (erule keeps_frameI, rule rows_loop_frame, rule erode_pixel_frame)

lemma every_strategy_keeps_frame:
  assumes "wf_image img" "s \<in> set processingStrategies"
  shows "keeps_frame img (fn s img)"
  using assms
  by (auto simp: processingStrategies_def identity_keeps_frame enhancedContrast_keeps_frame
      adaptiveHistogram_keeps_frame binaryThreshold_keeps_frame sharpening_keeps_frame
      colorInversion_keeps_frame morphological_keeps_frame)



















subsection \<open>The filters on concrete bitmaps\<close>

lemma upt_examples: "[0..<2] = [0, 1]" "[Suc 0..<2] = [1]" "[Suc 0..<3] = [1, 2]"
  by (simp_all add: upt_conv_Cons)

lemma gray_examples: "gray 100 150 200 = 141" "gray 0 36 12 = 22"
  by (simp_all add: gray_def rnd53_def rnd53s_def bit_length.simps math_round_def c299_def
      c587_def c114_def factor_def u8c_int_def u8c_fx_def contrast_channel_def Let_def)

lemma contrast_examples: "contrast_channel 100 = 100" "contrast_channel 150 = 150"
  "contrast_channel 200 = 201" "contrast_channel 0 = 0" "contrast_channel 36 = 35" "contrast_channel 12 = 11"
  by (simp_all add: gray_def rnd53_def rnd53s_def bit_length.simps math_round_def c299_def
      c587_def c114_def factor_def u8c_int_def u8c_fx_def contrast_channel_def Let_def)

lemma adaptiveHistogram_two_pixels: "adaptiveHistogram two_pixels =
   Inr \<lparr>data = [141, 141, 141, 255, 22, 22, 22, 7], width = 2, height = 1\<rparr>"
  by (simp add: adaptiveHistogram_def two_pixels_def pixel_offsets_def histogram_step_def
      new_ImageData_def upt_examples gray_examples u8c_int_def Let_def)

lemma enhancedContrast_two_pixels: "enhancedContrast two_pixels =
   Inr \<lparr>data = [100, 150, 201, 255, 0, 35, 11, 7], width = 2, height = 1\<rparr>"
  by (simp add: enhancedContrast_def two_pixels_def pixel_offsets_def contrast_step_def
      new_ImageData_def upt_examples contrast_examples Let_def)

lemma fl_quot_example: "fl_quot 163 2 = 163 / 2"
  by (simp add: fl_quot_def rnd53_sticky_def bit_length.simps Let_def)

lemma threshold_of_two_pixels: "threshold_of (data two_pixels) = 163 / 2"
proof -
  have l: "luma_sum (data two_pixels) = 163"
    by (simp add: luma_sum_def two_pixels_def pixel_offsets_def upt_examples gray_examples)
  have n: "length (data two_pixels) div 4 = 2" by (simp add: two_pixels_def)
  show ?thesis unfolding threshold_of_def l n by (rule fl_quot_example)
qed

lemma binaryThreshold_two_pixels: "binaryThreshold two_pixels =
   Inr \<lparr>data = [255, 255, 255, 255, 0, 0, 0, 7], width = 2, height = 1\<rparr>"
  unfolding binaryThreshold_def threshold_of_two_pixels
  by (simp add: two_pixels_def pixel_offsets_def threshold_step_def new_ImageData_def
      upt_examples gray_examples Let_def)

lemma colorInversion_two_pixels: "colorInversion two_pixels =
   Inr \<lparr>data = [155, 105, 55, 255, 255, 219, 243, 7], width = 2, height = 1\<rparr>"
  by (simp add: colorInversion_def two_pixels_def pixel_offsets_def inversion_step_def
      new_ImageData_def upt_examples u8c_int_def Let_def)

lemma sharpening_four_by_three: "sharpening four_by_three =
     Inr \<lparr>data = [0, 0, 0, 255,   0, 0, 0, 255,   0, 0, 0, 255,   0, 0, 0, 255,
              0, 0, 0, 255,  85, 0, 0, 255,   0, 0, 0, 255,   0, 0, 0, 255,
              0, 0, 0, 255,   0, 0, 0, 255,   0, 0, 0, 255,   0, 0, 0, 255],
      width = 4, height = 3\<rparr>"
  by (simp add: sharpening_def four_by_three_def sharpen_pixel_def kernel_sums_def kernel_def
      new_ImageData_def upt_examples u8c_int_def Let_def)

lemma kernel_sums_four_by_three: "kernel_sums (data four_by_three) 4 1 2 = (35, 0, 0)"
  by (simp add: four_by_three_def kernel_sums_def kernel_def)

section \<open>Properties of the pipeline\<close>

lemma reports_append [simp]: "reports (xs @ ys) = reports xs @ reports ys"
  by (induction xs rule: reports.induct) auto

lemma decodes_append [simp]: "decodes (xs @ ys) = decodes xs @ decodes ys"
  by (induction xs rule: decodes.induct) auto

lemma try_strategy_result:
  "snd (try_strategy cb jsQR img s) = map_option to_result (decode_of cb jsQR img s)"
  by (simp add: try_strategy_def decode_of_def to_result_def Let_def
      split: attempt.splits sum.splits option.splits)

lemma try_strategy_reports:
  "reports (fst (try_strategy cb jsQR img s)) = [(progress s, name s)]"
  by (simp add: try_strategy_def Let_def split: attempt.splits sum.splits option.splits)

lemma try_strategy_decodes:
  "decodes (fst (try_strategy cb jsQR img s)) =
     (case decoder_input cb img s of None \<Rightarrow> [] | Some a \<Rightarrow> [a])"
  by (simp add: try_strategy_def decoder_input_def Let_def
      split: attempt.splits sum.splits option.splits)

lemma try_strategies_trace:
  "snd (try_strategies cb jsQR img ss) = first_result cb jsQR img ss \<and>
   reports (fst (try_strategies cb jsQR img ss)) =
     map (\<lambda>s. (progress s, name s)) (tried cb jsQR img ss) \<and>
   decodes (fst (try_strategies cb jsQR img ss)) =
     List.map_filter (decoder_input cb img) (tried cb jsQR img ss)"
proof (induction ss)
  case Nil
  then show ?case by (simp add: first_result_def tried_def List.map_filter_simps)
next
  case (Cons s ss)
  obtain evs r where t: "try_strategy cb jsQR img s = (evs, r)" by (cases "try_strategy cb jsQR img s")
  have r: "r = map_option to_result (decode_of cb jsQR img s)"
    using try_strategy_result [of cb jsQR img s] t by simp
  have rep: "reports evs = [(progress s, name s)]"
    using try_strategy_reports [of cb jsQR img s] t by simp
  have dec: "decodes evs = (case decoder_input cb img s of None \<Rightarrow> [] | Some a \<Rightarrow> [a])"
    using try_strategy_decodes [of cb jsQR img s] t by simp
  obtain evs' r' where u: "try_strategies cb jsQR img ss = (evs', r')"
    by (cases "try_strategies cb jsQR img ss")
  from Cons u have ih: "r' = first_result cb jsQR img ss"
    "reports evs' = map (\<lambda>s. (progress s, name s)) (tried cb jsQR img ss)"
    "decodes evs' = List.map_filter (decoder_input cb img) (tried cb jsQR img ss)"
    by simp_all
  show ?case
  proof (cases "decode_of cb jsQR img s")
    case None
    with r have "try_strategies cb jsQR img (s # ss) = (evs @ evs', r')"
      using t u by simp
    moreover have "first_result cb jsQR img (s # ss) = first_result cb jsQR img ss"
      "tried cb jsQR img (s # ss) = s # tried cb jsQR img ss"
      using None by (simp_all add: first_result_def tried_def)
    ultimately show ?thesis
      using ih rep dec by (simp add: List.map_filter_simps split: option.splits)
  next
    case (Some c)
    with r have "try_strategies cb jsQR img (s # ss) = (evs, Some (to_result c))"
      using t by simp
    moreover have "first_result cb jsQR img (s # ss) = Some (to_result c)"
      "tried cb jsQR img (s # ss) = [s]"
      using Some by (simp_all add: first_result_def tried_def)
    ultimately show ?thesis
      using rep dec by (simp add: List.map_filter_simps split: option.splits)
  qed
qed

section \<open>The specification of the filters\<close>

lemma wf_examples: "wf_image two_pixels" "wf_image four_by_three" "wf_image three_by_three"
  by (simp_all add: wf_image_def two_pixels_def four_by_three_def three_by_three_def)



text \<open>
  C5. The specification has \<open>sharpening\<close> compute every interior pixel from the
  input's values at its nine neighbours. The source reads the neighbours from the buffer it is
  writing, so a pixel whose left or upper neighbours are interior gets their sharpened
  values. On \<open>four_by_three\<close> the red byte of pixel (2, 1) is 0, where the kernel sum
  over the input, 9 * 5 - 10 = 35, is what the specification gives; pixel (1, 1), sharpened before
  it to 9 * 10 - 5 = 85, is what the source subtracts.
\<close>

theorem sharpening_reads_sharpened_neighbours:
  "sharpening four_by_three =
     Inr \<lparr>data = [0, 0, 0, 255,   0, 0, 0, 255,   0, 0, 0, 255,   0, 0, 0, 255,
                  0, 0, 0, 255,  85, 0, 0, 255,   0, 0, 0, 255,   0, 0, 0, 255,
                  0, 0, 0, 255,   0, 0, 0, 255,   0, 0, 0, 255,   0, 0, 0, 255],
          width = 4, height = 3\<rparr> \<and>
   channel four_by_three 2 1 0 = 5 \<and>
   u8c_int (min 255 (max 0 (fst (kernel_sums (data four_by_three) 4 1 2)))) = 35"
  using sharpening_four_by_three kernel_sums_four_by_three by (simp add: channel_def four_by_three_def u8c_int_def)



text \<open>
  C9. Each of the seven filters of \<open>processingStrategies\<close> (the identity and the six of
  \<open>preprocessingStrategies\<close>) returns, on a bitmap, a bitmap of the same width and
  height whose buffer has \<open>width * height * 4\<close> bytes.
\<close>

theorem filters_preserve_dimensions:
  assumes "wf_image img" and "s \<in> set processingStrategies"
  shows "\<exists>out. fn s img = Inr out \<and> width out = width img \<and> height out = height img \<and>
           length (data out) = width out * height out * 4"
  using every_strategy_keeps_frame [OF assms]
  by (cases "fn s img") (simp_all add: keeps_frame_def)

theorem filters_preserve_dimensions_witness:
  "wf_image four_by_three \<and> processingStrategies ! 4 \<in> set processingStrategies \<and>
   fn (processingStrategies ! 4) = sharpening \<and>
   (\<exists>out. sharpening four_by_three = Inr out \<and> width out = 4 \<and> height out = 3 \<and>
      length (data out) = 48)"
proof -
  have s: "processingStrategies ! 4 \<in> set processingStrategies"
    by (intro nth_mem) (simp add: processingStrategies_def)
  have f: "fn (processingStrategies ! 4) = sharpening" by (simp add: processingStrategies_def)
  have d: "width four_by_three = 4" "height four_by_three = 3" by (simp_all add: four_by_three_def)
  from filters_preserve_dimensions [OF wf_examples(2) s] s f wf_examples(2) show ?thesis
    by (auto simp: d)
qed

text \<open>
  C10. Each of the seven filters returns, on a bitmap, a bitmap with the alpha byte of
  every pixel unchanged.
\<close>

theorem filters_preserve_alpha:
  assumes "wf_image img" and "s \<in> set processingStrategies"
  shows "\<exists>out. fn s img = Inr out \<and>
           (\<forall>p<width img * height img. data out ! (4 * p + 3) = data img ! (4 * p + 3))"
  using every_strategy_keeps_frame [OF assms]
  by (cases "fn s img") (simp_all add: keeps_frame_def)

theorem filters_preserve_alpha_witness:
  "wf_image two_pixels \<and> processingStrategies ! 2 \<in> set processingStrategies \<and>
   fn (processingStrategies ! 2) = adaptiveHistogram \<and>
   (\<exists>out. adaptiveHistogram two_pixels = Inr out \<and>
      data out ! 3 = 255 \<and> data out ! 7 = 7)"
proof -
  have s: "processingStrategies ! 2 \<in> set processingStrategies"
    by (intro nth_mem) (simp add: processingStrategies_def)
  have f: "fn (processingStrategies ! 2) = adaptiveHistogram" by (simp add: processingStrategies_def)
  from filters_preserve_alpha [OF wf_examples(1) s] obtain out where
    out: "adaptiveHistogram two_pixels = Inr out"
    and a: "\<forall>p<width two_pixels * height two_pixels.
              data out ! (4 * p + 3) = data two_pixels ! (4 * p + 3)"
    by (auto simp: f)
  have "0 < width two_pixels * height two_pixels" "1 < width two_pixels * height two_pixels"
    by (simp_all add: two_pixels_def)
  with a have "data out ! (4 * 0 + 3) = data two_pixels ! (4 * 0 + 3)"
    "data out ! (4 * 1 + 3) = data two_pixels ! (4 * 1 + 3)"
    by blast+
  then have "data out ! 3 = 255" "data out ! 7 = 7" by (simp_all add: two_pixels_def)
  with out s f wf_examples(1) show ?thesis by simp
qed

section \<open>The specification of the pipeline\<close>

lemma processImage_without_context:
  "processImage canvas_without_context img onProgress jsQR = Inl CanvasContextNotAvailable"
  by (simp add: processImage_def canvas_without_context_def)

text \<open>
  C1. The strategies are the identity, contrast, grayscale, binary threshold, sharpen,
  invert and erosion, in this order. With a canvas that has a 2D context, whatever the
  bitmap, the callback and the decoder do, \<open>processImage\<close> does not throw; it reports
  and tries the strategies in that order up to and including the first one that yields a
  decode result on the original bitmap, and no later one; a strategy in which the callback,
  the filter or the decoder throws counts as one without a result; every decoder call is on
  a filter's output for the original bitmap; the value returned is the payload and the
  corners of that first result, and \<open>null\<close> if no strategy has one.
\<close>

theorem processImage_first_success_in_order:
  assumes "has_context_2d canvas"
  shows "map name processingStrategies =
           [''Direct Detection'', ''Enhanced Contrast'', ''Adaptive Histogram'',
            ''Binary Threshold'', ''Sharpening'', ''Color Inversion'', ''Morphological''] \<and>
         map fn processingStrategies =
           [Inr, enhancedContrast, adaptiveHistogram, binaryThreshold, sharpening,
            colorInversion, morphological] \<and>
         (\<exists>evs. processImage canvas img onProgress jsQR =
                  Inr (evs, first_result onProgress jsQR img processingStrategies) \<and>
                reports evs =
                  map (\<lambda>s. (progress s, name s))
                    (tried onProgress jsQR img processingStrategies) \<and>
                decodes evs =
                  List.map_filter (decoder_input onProgress img)
                    (tried onProgress jsQR img processingStrategies))"
proof -
  obtain evs r where t: "try_strategies onProgress jsQR img processingStrategies = (evs, r)"
    by (cases "try_strategies onProgress jsQR img processingStrategies")
  with try_strategies_trace [of onProgress jsQR img processingStrategies]
  have "r = first_result onProgress jsQR img processingStrategies"
    "reports evs = map (\<lambda>s. (progress s, name s)) (tried onProgress jsQR img processingStrategies)"
    "decodes evs = List.map_filter (decoder_input onProgress img)
                    (tried onProgress jsQR img processingStrategies)"
    by simp_all
  moreover have "processImage canvas img onProgress jsQR = Inr (evs, r)"
    using assms t by (simp add: processImage_def)
  moreover have "map name processingStrategies =
           [''Direct Detection'', ''Enhanced Contrast'', ''Adaptive Histogram'',
            ''Binary Threshold'', ''Sharpening'', ''Color Inversion'', ''Morphological'']"
    "map fn processingStrategies =
           [Inr, enhancedContrast, adaptiveHistogram, binaryThreshold, sharpening,
            colorInversion, morphological]"
    by (simp_all add: processingStrategies_def)
  ultimately show ?thesis by blast
qed

lemma decode_of_two_pixels:
  "decode_of quiet_progress bilevel_decoder two_pixels \<lparr>name = n, progress = p, fn = Inr\<rparr> = None"
  "decode_of quiet_progress bilevel_decoder two_pixels
     \<lparr>name = n, progress = p, fn = enhancedContrast\<rparr> = None"
  "decode_of quiet_progress bilevel_decoder two_pixels
     \<lparr>name = n, progress = p, fn = adaptiveHistogram\<rparr> = None"
  "decode_of quiet_progress bilevel_decoder two_pixels
     \<lparr>name = n, progress = p, fn = binaryThreshold\<rparr> = Some some_code"
  by (simp_all add: decode_of_def quiet_progress_def bilevel_decoder_def adaptiveHistogram_two_pixels enhancedContrast_two_pixels binaryThreshold_two_pixels)
    (simp add: two_pixels_def)

lemma decoder_input_two_pixels:
  "decoder_input quiet_progress two_pixels \<lparr>name = n, progress = p, fn = Inr\<rparr> =
     Some ([100, 150, 200, 255, 0, 36, 12, 7], 2, 1)"
  "decoder_input quiet_progress two_pixels \<lparr>name = n, progress = p, fn = enhancedContrast\<rparr> =
     Some ([100, 150, 201, 255, 0, 35, 11, 7], 2, 1)"
  "decoder_input quiet_progress two_pixels \<lparr>name = n, progress = p, fn = adaptiveHistogram\<rparr> =
     Some ([141, 141, 141, 255, 22, 22, 22, 7], 2, 1)"
  "decoder_input quiet_progress two_pixels \<lparr>name = n, progress = p, fn = binaryThreshold\<rparr> =
     Some ([255, 255, 255, 255, 0, 0, 0, 7], 2, 1)"
  by (simp_all add: decoder_input_def quiet_progress_def adaptiveHistogram_two_pixels enhancedContrast_two_pixels binaryThreshold_two_pixels) (simp add: two_pixels_def)

theorem processImage_first_success_in_order_witness:
  "has_context_2d canvas_2d \<and>
   (\<exists>evs. processImage canvas_2d two_pixels quiet_progress bilevel_decoder =
            Inr (evs, Some \<lparr>qr_data = ''hello'', qr_location = some_corners\<rparr>) \<and>
          reports evs =
            [(65, ''Direct Detection''), (70, ''Enhanced Contrast''),
             (75, ''Adaptive Histogram''), (80, ''Binary Threshold'')] \<and>
          decodes evs =
            [([100, 150, 200, 255, 0, 36, 12, 7], 2, 1),
             ([100, 150, 201, 255, 0, 35, 11, 7], 2, 1),
             ([141, 141, 141, 255, 22, 22, 22, 7], 2, 1),
             ([255, 255, 255, 255, 0, 0, 0, 7], 2, 1)])"
proof -
  have c: "has_context_2d canvas_2d" by (simp add: canvas_2d_def)
  have tr: "tried quiet_progress bilevel_decoder two_pixels processingStrategies =
      take 4 processingStrategies"
    by (simp add: tried_def processingStrategies_def decode_of_two_pixels)
  have fr: "first_result quiet_progress bilevel_decoder two_pixels processingStrategies =
      Some \<lparr>qr_data = ''hello'', qr_location = some_corners\<rparr>"
    by (simp add: first_result_def processingStrategies_def decode_of_two_pixels to_result_def
        some_code_def)
  have di: "List.map_filter (decoder_input quiet_progress two_pixels)
      (take 4 processingStrategies) =
            [([100, 150, 200, 255, 0, 36, 12, 7], 2, 1),
             ([100, 150, 201, 255, 0, 35, 11, 7], 2, 1),
             ([141, 141, 141, 255, 22, 22, 22, 7], 2, 1),
             ([255, 255, 255, 255, 0, 0, 0, 7], 2, 1)]"
    by (simp add: List.map_filter_simps processingStrategies_def decoder_input_two_pixels)
  have rp: "map (\<lambda>s. (progress s, name s)) (take 4 processingStrategies) =
      [(65, ''Direct Detection''), (70, ''Enhanced Contrast''),
             (75, ''Adaptive Histogram''), (80, ''Binary Threshold'')]"
    by (simp add: processingStrategies_def)
  from processImage_first_success_in_order [OF c, of two_pixels quiet_progress bilevel_decoder]
  show ?thesis unfolding tr fr di rp using c by blast
qed

section \<open>Properties of the classifier and the parsers\<close>

lemmas char_class = is_digit_def is_alpha_def is_alnum_def is_space_def phone_char_def

lemma detect_mailto: "detectContentType url_ok ''mailto:a@b.com'' = Type_email"
  by (simp add: detectContentType_def trim_def startsWith_def js_includes_def phonePattern_def
      emailPattern_def char_class)

lemma detect_empty: "detectContentType url_ok [] = Type_empty"
  by (simp add: detectContentType_def)

lemma detect_wifi: "detectContentType url_ok ''WIFI:T:WPA;S:Home;P:secret;H:false;'' = Type_wifi"
  by (simp add: detectContentType_def trim_def startsWith_def js_includes_def char_class)

lemma detect_short_phone: "detectContentType url_ok ''(555) 1234'' = Type_phone"
  by (simp add: detectContentType_def trim_def startsWith_def js_includes_def phonePattern_def
      char_class)

lemma detect_ftp: "detectContentType example_url_ok ''ftp://example.com'' = Type_url"
  by (simp add: detectContentType_def trim_def startsWith_def js_includes_def phonePattern_def
      emailPattern_def geoPattern_def geo_at_def example_url_ok_def char_class)

lemma detect_upper_http: "detectContentType example_url_ok ''HTTP://EXAMPLE.COM'' = Type_url"
  by (simp add: detectContentType_def trim_def startsWith_def js_includes_def phonePattern_def
      emailPattern_def geoPattern_def geo_at_def example_url_ok_def char_class)

lemma detect_https: "detectContentType example_url_ok ''https://example.com'' = Type_url"
  by (simp add: detectContentType_def trim_def startsWith_def js_includes_def phonePattern_def
      emailPattern_def geoPattern_def geo_at_def example_url_ok_def char_class)

lemma detect_bare_domain: "detectContentType url_ok ''example.com'' = Type_url"
  by (simp add: detectContentType_def trim_def startsWith_def js_includes_def phonePattern_def
      emailPattern_def geoPattern_def geo_at_def urlPattern_def domain_at_def char_class Let_def)

lemma phonePattern_iff:
  "phonePattern s \<longleftrightarrow>
     (\<exists>r. (s = r \<or> s = CHR ''+'' # r) \<and> 10 \<le> length r \<and> (\<forall>c\<in>set r. phone_char c))"
proof (cases s)
  case Nil
  then show ?thesis by (simp add: phonePattern_def)
next
  case (Cons c t)
  show ?thesis
  proof (cases "c = CHR ''+''")
    case True
    have "\<not> phone_char CHR ''+''" by (simp add: char_class)
    with True Cons show ?thesis by (auto simp: phonePattern_def list_all_iff)
  next
    case False
    with Cons show ?thesis by (auto simp: phonePattern_def list_all_iff)
  qed
qed










text \<open>
  C2. \<open>detectContentType\<close> is a function from strings to the nine content types: every
  string, the empty one too, has exactly one type, whatever the URL parser says. It gives
  \<open>email\<close> for \<open>mailto:a@b.com\<close>, \<open>empty\<close> for the empty string and \<open>wifi\<close> for
  \<open>WIFI:T:WPA;S:Home;P:secret;H:false;\<close>.
\<close>

theorem detectContentType_total_deterministic:
  "(\<exists>!t. detectContentType url_ok s = t) \<and>
   detectContentType url_ok s \<in>
     {Type_vcard, Type_url, Type_email, Type_phone, Type_wifi, Type_location, Type_sms,
      Type_text, Type_empty} \<and>
   detectContentType url_ok ''mailto:a@b.com'' = Type_email \<and>
   detectContentType url_ok [] = Type_empty \<and>
   detectContentType url_ok ''WIFI:T:WPA;S:Home;P:secret;H:false;'' = Type_wifi"
proof -
  have "detectContentType url_ok s \<in>
     {Type_vcard, Type_url, Type_email, Type_phone, Type_wifi, Type_location, Type_sms,
      Type_text, Type_empty}"
    by (cases "detectContentType url_ok s") simp_all
  then show ?thesis by (simp add: detect_mailto detect_empty detect_wifi)
qed

text \<open>
  C3, as the source has it. For a string that is trimmed, not empty and not taken by the
  rules for contact cards, WiFi and SMS, the type is \<open>phone\<close> exactly when the string
  starts with \<open>tel:\<close> or is an optional \<open>+\<close> followed by ten or more characters, each
  of them a digit, a white-space character, a hyphen or a parenthesis. The ten are
  characters, not digits.
\<close>

theorem phone_number_classification:
  assumes "s \<noteq> []" and "trim s = s"
    and "\<not> (startsWith s ''BEGIN:VCARD'' \<and> js_includes s ''END:VCARD'')"
    and "\<not> startsWith s ''WIFI:''" and "\<not> startsWith s ''SMSTO:''" and "\<not> startsWith s ''sms:''"
  shows "detectContentType url_ok s = Type_phone \<longleftrightarrow>
           startsWith s ''tel:'' \<or>
           (\<exists>r. (s = r \<or> s = CHR ''+'' # r) \<and> 10 \<le> length r \<and>
                (\<forall>c\<in>set r. is_digit c \<or> is_space c \<or> c \<in> {CHR ''-'', CHR ''('', CHR '')''}))"
proof -
  have "detectContentType url_ok s = Type_phone \<longleftrightarrow> phonePattern s \<or> startsWith s ''tel:''"
    using assms by (simp add: detectContentType_def Let_def)
  also have "phonePattern s \<longleftrightarrow>
      (\<exists>r. (s = r \<or> s = CHR ''+'' # r) \<and> 10 \<le> length r \<and>
                (\<forall>c\<in>set r. is_digit c \<or> is_space c \<or> c \<in> {CHR ''-'', CHR ''('', CHR '')''}))"
    unfolding phonePattern_iff by (simp add: phone_char_def)
  finally show ?thesis by blast
qed

theorem phone_number_classification_witness:
  "''+1 (555) 123-4567'' \<noteq> [] \<and> trim ''+1 (555) 123-4567'' = ''+1 (555) 123-4567'' \<and>
   \<not> (startsWith ''+1 (555) 123-4567'' ''BEGIN:VCARD'' \<and>
      js_includes ''+1 (555) 123-4567'' ''END:VCARD'') \<and>
   \<not> startsWith ''+1 (555) 123-4567'' ''WIFI:'' \<and> \<not> startsWith ''+1 (555) 123-4567'' ''SMSTO:'' \<and>
   \<not> startsWith ''+1 (555) 123-4567'' ''sms:'' \<and>
   detectContentType example_url_ok ''+1 (555) 123-4567'' = Type_phone"
proof -
  let ?s = "''+1 (555) 123-4567''"
  have h: "?s \<noteq> []" "trim ?s = ?s"
    "\<not> (startsWith ?s ''BEGIN:VCARD'' \<and> js_includes ?s ''END:VCARD'')"
    "\<not> startsWith ?s ''WIFI:''" "\<not> startsWith ?s ''SMSTO:''" "\<not> startsWith ?s ''sms:''"
    by (simp_all add: trim_def is_space_def startsWith_def)
  have "\<exists>r. (?s = r \<or> ?s = CHR ''+'' # r) \<and> 10 \<le> length r \<and>
                (\<forall>c\<in>set r. is_digit c \<or> is_space c \<or> c \<in> {CHR ''-'', CHR ''('', CHR '')''})"
    by (rule exI [of _ "''1 (555) 123-4567''"]) (simp add: is_digit_def is_space_def)
  with phone_number_classification [OF h, of example_url_ok] h show ?thesis by blast
qed

text \<open>
  C3, as the specification states it, fails: \<open>(555) 1234\<close> has seven digits and is classified
  \<open>phone\<close>.
\<close>

theorem seven_digits_classified_phone:
  "trim ''(555) 1234'' = ''(555) 1234'' \<and>
   \<not> startsWith ''(555) 1234'' ''BEGIN:VCARD'' \<and> \<not> startsWith ''(555) 1234'' ''WIFI:'' \<and>
   \<not> startsWith ''(555) 1234'' ''SMSTO:'' \<and> \<not> startsWith ''(555) 1234'' ''sms:'' \<and>
   \<not> startsWith ''(555) 1234'' ''tel:'' \<and>
   set ''(555) 1234'' \<subseteq> set ''0123456789 -()'' \<and>
   length (filter is_digit ''(555) 1234'') = 7 \<and>
   \<not> claimed_phone_shape ''(555) 1234'' \<and>
   detectContentType example_url_ok ''(555) 1234'' = Type_phone"
  by (simp add: detect_short_phone claimed_phone_shape_def trim_def is_space_def startsWith_def
      is_digit_def)


lemma typeParam_of_not_empty: "typeParam_of params \<noteq> []"
  by (simp add: typeParam_of_def split: option.splits)

lemma cleanType_of_tel_type: "typeParam \<noteq> [] \<Longrightarrow> cleanType_of typeParam = tel_type typeParam"
  by (simp add: cleanType_of_def tel_type_def)

lemma lower_examples:
  "toLowerCase ''VOICE'' = ''voice''" "toLowerCase ''Voice,pref'' = ''voice,pref''"
  "toLowerCase ''default'' = ''default''"
  by (simp_all add: toLowerCase_def upper_letters_def lower_letters_def)

lemma tel_type_examples:
  "tel_type ''VOICE'' = ''voice''" "tel_type ''Voice,pref'' = ''voice''"
  "tel_type ''default'' = ''default''"
  by (simp_all add: tel_type_def lower_examples js_includes_def startsWith_def trim_def
      is_space_def)

text \<open>A \<open>TEL\<close> line without a \<open>TYPE\<close> parameter gets the type \<open>default\<close>, not \<open>phone\<close>.\<close>

lemma tel_without_type:
  "vcard_line contact ''TEL:555-1234'' =
     contact\<lparr>phones := push (phones contact)
       \<lparr>entry_type = ''default'', entry_value = ''555-1234''\<rparr>\<rparr>"
  by (simp add: vcard_line_def startsWith_def indexOf_def toUpperCase_def typeParam_of_def
      cleanType_of_tel_type tel_type_examples)

lemma cleanType_of_never_phone_by_default: "cleanType_of (typeParam_of []) = ''default''"
  by (simp add: typeParam_of_def cleanType_of_tel_type tel_type_examples)






text \<open>
  A line with a field that the parser does not know goes to \<open>unmappedFields\<close> under the
  field in lower case; the key \<open>__proto__\<close> stores nothing.
\<close>

lemma lower_keys:
  "toLowerCase ''__proto__'' = ''__proto__''" "toLowerCase ''X-ID'' = ''x-id''"
  by (simp_all add: toLowerCase_def upper_letters_def lower_letters_def)

lemma unmapped_lines:
  "vcard_line empty_contact ''X-ID:7'' = empty_contact\<lparr>unmappedFields := [''x-id'' \<mapsto> ''7'']\<rparr>"
  "vcard_line empty_contact ''__proto__:x'' = empty_contact"
  by (simp_all add: vcard_line_def startsWith_def indexOf_def toUpperCase_def lower_keys
      split_def typeParam_of_def empty_contact_def Let_def)

text \<open>
  \<open>parseFloat\<close> on coordinates: \<open>48.1\<close> is not a double and is rounded to one, \<open>0.125\<close> and
  \<open>12\<close> are doubles, and \<open>-0\<close> is the negative zero.
\<close>

lemma bit_length_examples:
  "bit_length 1 = 1" "bit_length 10 = 4" "bit_length 481 = 9" "bit_length 12 = 4"
  "bit_length 125 = 7" "bit_length 1000 = 10"
  by (simp_all add: bit_length.simps)

lemma parseFloat_examples:
  "parseFloat ''48.1'' = Number (6769473189891277 / 2 ^ 47)"
  "parseFloat ''-0.125'' = Number (- (1 / 8))"
  "parseFloat ''12'' = Number 12"
  "parseFloat ''-0'' = NegativeZero"
  by (simp_all add: parseFloat_def startsWith_def is_digit_def digits_value_def nearest_double_def
      round_half_even_def bit_length_examples Let_def)

text \<open>
  What the source does with a payload classified \<open>url\<close>: the actions are an \<open>open\<close>
  action, whose value is the payload if the payload starts with \<open>http://\<close> or
  \<open>https://\<close> and \<open>https://\<close> followed by the payload if not, and then a \<open>copy\<close>
  action whose value is the payload.
\<close>

lemma parseContent_url_actions:
  assumes "detectContentType url_ok content = Type_url"
  shows "actions (parseContent url_ok content) =
           [\<lparr>action_type = Open, action_label = ''Open Website'',
             action_value =
               (if startsWith content ''http://'' \<or> startsWith content ''https://''
                then content else ''https://'' @ content),
             action_icon = Some ''external-link''\<rparr>,
            \<lparr>action_type = Copy, action_label = ''Copy URL'', action_value = content,
             action_icon = Some ''clipboard''\<rparr>]"
  using assms by (simp add: parseContent_def parse_url_def Let_def)

lemma parseContent_url_examples:
  "detectContentType example_url_ok ''https://example.com'' = Type_url \<and>
   detectContentType example_url_ok ''example.com'' = Type_url \<and>
   map action_value (actions (parseContent example_url_ok ''https://example.com'')) =
     [''https://example.com'', ''https://example.com''] \<and>
   map action_value (actions (parseContent example_url_ok ''example.com'')) =
     [''https://example.com'', ''example.com'']"
  using parseContent_url_actions [OF detect_https]
    parseContent_url_actions [OF detect_bare_domain, of example_url_ok]
    detect_https detect_bare_domain [of example_url_ok]
  by (simp add: startsWith_def)

text \<open>
  C8: for a payload classified \<open>url\<close>, the value of the \<open>open\<close> action is the payload itself
  when the payload has a URL scheme. The source does not do that. Its test, which is there to
  leave alone a payload that is an absolute URL already, looks for the two prefixes
  \<open>http://\<close> and \<open>https://\<close> only, in lower case. \<open>ftp://example.com\<close> and
  \<open>HTTP://EXAMPLE.COM\<close> have a scheme, the URL parser accepts them as absolute URLs, which
  is why they are classified \<open>url\<close>, and the \<open>open\<close> action gets \<open>https://ftp://example.com\<close>
  and \<open>https://HTTP://EXAMPLE.COM\<close>, which are not the payloads and lead nowhere. The \<open>copy\<close>
  action that follows has the payload.
\<close>

theorem scheme_other_than_http_is_prefixed:
  "has_url_scheme ''ftp://example.com'' \<and>
   detectContentType example_url_ok ''ftp://example.com'' = Type_url \<and>
   map action_type (actions (parseContent example_url_ok ''ftp://example.com'')) =
     [Open, Copy] \<and>
   map action_value (actions (parseContent example_url_ok ''ftp://example.com'')) =
     [''https://ftp://example.com'', ''ftp://example.com''] \<and>
   has_url_scheme ''HTTP://EXAMPLE.COM'' \<and>
   detectContentType example_url_ok ''HTTP://EXAMPLE.COM'' = Type_url \<and>
   map action_type (actions (parseContent example_url_ok ''HTTP://EXAMPLE.COM'')) =
     [Open, Copy] \<and>
   map action_value (actions (parseContent example_url_ok ''HTTP://EXAMPLE.COM'')) =
     [''https://HTTP://EXAMPLE.COM'', ''HTTP://EXAMPLE.COM'']"
proof -
  have scheme: "has_url_scheme ''ftp://example.com''" "has_url_scheme ''HTTP://EXAMPLE.COM''"
    by (simp_all add: has_url_scheme_def is_alpha_def is_alnum_def is_digit_def)
  have ftp: "actions (parseContent example_url_ok ''ftp://example.com'') =
      [\<lparr>action_type = Open, action_label = ''Open Website'',
        action_value = ''https://ftp://example.com'', action_icon = Some ''external-link''\<rparr>,
       \<lparr>action_type = Copy, action_label = ''Copy URL'', action_value = ''ftp://example.com'',
        action_icon = Some ''clipboard''\<rparr>]"
    by (simp add: detect_ftp parseContent_def parse_url_def startsWith_def Let_def)
  have upper: "actions (parseContent example_url_ok ''HTTP://EXAMPLE.COM'') =
      [\<lparr>action_type = Open, action_label = ''Open Website'',
        action_value = ''https://HTTP://EXAMPLE.COM'', action_icon = Some ''external-link''\<rparr>,
       \<lparr>action_type = Copy, action_label = ''Copy URL'', action_value = ''HTTP://EXAMPLE.COM'',
        action_icon = Some ''clipboard''\<rparr>]"
    by (simp add: detect_upper_http parseContent_def parse_url_def startsWith_def Let_def)
  show ?thesis
    by (simp add: scheme detect_ftp detect_upper_http ftp upper)
qed
end
